theory Spec2Isabelle
  imports Complex_Main "HOL-Library.Word"
begin

section \<open>Time and the badge classifier\<close>

text \<open>
  A JavaScript \<^verbatim>\<open>Date\<close> is represented by its time value \<^verbatim>\<open>getTime()\<close>: an integer
  number of milliseconds since the epoch. The \<^verbatim>\<open>due_date\<close> column is a nullable
  \<^verbatim>\<open>DATETIME\<close>, which the driver hands to the handlers as a \<^verbatim>\<open>Date\<close> holding that
  instant or as \<^verbatim>\<open>null\<close>; hence \<open>timestamp option\<close>. A \<^verbatim>\<open>Date\<close> object is truthy, so
  \<open>None\<close> is the only value for which \<^verbatim>\<open>!dueDate\<close> holds. The clock reading
  \<^verbatim>\<open>new Date()\<close> is the explicit argument \<open>now\<close>.
\<close>

type_synonym timestamp = int

text \<open>
  \<^verbatim>\<open>hoursDiff = (due.getTime() - now.getTime()) / (1000 * 3600)\<close>. The source divides in
  double precision; the quotient is only compared with \<open>0\<close> and \<open>24\<close>, both doubles, and a
  difference of whole milliseconds that is not on a threshold is at least
  \<open>1 / 3600000\<close> hours away from it, far more than the rounding error, so the exact
  quotient decides the comparisons the same way.
\<close>

definition hoursDiff :: "timestamp \<Rightarrow> timestamp \<Rightarrow> real" where
  "hoursDiff now due = real_of_int (due - now) / (1000 * 3600)"

text \<open>\<^verbatim>\<open>getTaskBadge\<close> of the tasks router.\<close>

definition getTaskBadge :: "timestamp \<Rightarrow> timestamp option \<Rightarrow> string \<Rightarrow> string" where
  "getTaskBadge now dueDate status =
     (if dueDate = None \<or> status = ''Done'' then ''On Track''
      else
        let due = the dueDate;
            hours = hoursDiff now due
        in if hours < 0 then ''Overdue''
           else if hours \<le> 24 then ''At Risk''
           else ''On Track'')"

text \<open>
  The second \<^verbatim>\<open>getTaskBadge\<close>, declared inside the handler of
  \<^verbatim>\<open>GET /api/users/me/tasks\<close>, embedded from its own text: the guard
  \<^verbatim>\<open>!dueDate || status === 'Done'\<close> first, then the two comparisons.
\<close>

definition getTaskBadge_users :: "timestamp \<Rightarrow> timestamp option \<Rightarrow> string \<Rightarrow> string" where
  "getTaskBadge_users now dueDate status =
     (if dueDate = None \<or> status = ''Done'' then ''On Track''
      else
        let timeDiff = the dueDate - now;
            hours = real_of_int timeDiff / (1000 * 3600)
        in if hours < 0 then ''Overdue''
           else if hours \<le> 24 then ''At Risk''
           else ''On Track'')"

section \<open>Strings\<close>

text \<open>
  A JavaScript string is a sequence of UTF-16 code units. The texts that the handlers
  trim and measure (titles, descriptions, comment bodies) are held as such sequences.
  The strings that the handlers only compare with literals or hand on (statuses,
  priorities, messages, header values) are held as \<open>string\<close>. \<open>utf16\<close> gives the code
  units of an ASCII literal.
\<close>

type_synonym code_unit = "16 word"

type_synonym jstring = "code_unit list"

definition utf16 :: "string \<Rightarrow> jstring" where
  "utf16 s = map of_char s"

section \<open>The relational store\<close>

text \<open>
  The three tables of the schema, one record per row, with the columns the handlers
  read or write. Identifiers are SQL \<^verbatim>\<open>INT\<close>s; a nullable column is an \<open>option\<close>. Each
  table is the list of its rows; \<open>tasks_auto_increment\<close> is the \<^verbatim>\<open>AUTO_INCREMENT\<close>
  counter from which the next \<^verbatim>\<open>INSERT INTO tasks\<close> draws its \<^verbatim>\<open>insertId\<close>. The
  statements that the handlers execute are taken to succeed: the answer of a
  \<^verbatim>\<open>catch\<close> block to a database that fails is not part of the model.
\<close>

record user =
  u_id :: int
  email :: string
  name :: string

record task =
  t_id :: int
  title :: jstring
  description :: "jstring option"
  priority :: string
  assignee_id :: "int option"
  status :: string
  due_date :: "timestamp option"
  created_at :: timestamp
  updated_at :: timestamp

record comment =
  c_id :: int
  c_task_id :: int
  author_id :: int
  body :: jstring
  c_created_at :: timestamp

record db =
  users :: "user list"
  tasks :: "task list"
  comments :: "comment list"
  tasks_auto_increment :: int

section \<open>Requests and responses\<close>

text \<open>
  A property of a JSON request body is absent (the body does not own it), \<^verbatim>\<open>null\<close>, or
  a value. A \<^verbatim>\<open>due_date\<close> value is a string: \<open>ISO8601 t\<close> stands for a string that
  \<^verbatim>\<open>isISO8601\<close> accepts and that denotes the instant \<open>t\<close>, \<open>Malformed\<close> for a string it
  rejects. An \<^verbatim>\<open>assignee_id\<close> value is a JSON number, held as the integer it is.

  A body can own properties beyond the six. One of them matters to the handlers: a
  property named \<^verbatim>\<open>hasOwnProperty\<close> (of any JSON value, none of which is a function)
  shadows the method of \<^verbatim>\<open>Object.prototype\<close> that \<^verbatim>\<open>PUT /api/tasks/:id\<close> calls on
  the body; \<open>owns_hasOwnProperty\<close> says that the body owns it.
\<close>

datatype 'a field = Absent | Null | Val 'a

datatype date_text = ISO8601 timestamp | Malformed

record task_body =
  b_title :: "jstring field"
  b_description :: "jstring field"
  b_priority :: "string field"
  b_status :: "string field"
  b_assignee_id :: "int field"
  b_due_date :: "date_text field"
  owns_hasOwnProperty :: bool

text \<open>
  The query string of \<^verbatim>\<open>GET /api/tasks\<close>: \<^verbatim>\<open>assignee\<close>, \<^verbatim>\<open>priority\<close>, \<^verbatim>\<open>status\<close>, each
  absent or a string; \<^verbatim>\<open>assignee\<close> is held as the integer its digits denote, and such a
  string is never empty.
\<close>

record task_query =
  q_assignee :: "int option"
  q_priority :: "string option"
  q_status :: "string option"

text \<open>
  A row of the \<^verbatim>\<open>SELECT ... FROM tasks t LEFT JOIN users u\<close> that every task handler
  issues is the task row with the two joined columns; the object sent to the client is
  that row spread (\<^verbatim>\<open>...task\<close>) with \<^verbatim>\<open>badge\<close> and \<^verbatim>\<open>assignee\<close> added.
\<close>

record joined_task = task +
  assignee_name :: "string option"
  assignee_email :: "string option"

record task_view = joined_task +
  badge :: string
  assignee :: "(int \<times> string option \<times> string option) option"

record comment_view =
  v_id :: int
  v_taskId :: int
  v_body :: jstring
  v_createdAt :: timestamp
  v_author :: "int \<times> string \<times> string"

text \<open>
  A response is the HTTP status with the JSON payload. \<open>Errors m\<close> is the payload
  \<^verbatim>\<open>{message: m, errors: errors.array()}\<close> of a failed validation, the itemised array
  left out.
\<close>

datatype payload =
    Message string
  | Errors string
  | TaskList "task_view list"
  | TaskDetail task_view
  | MessageTask string task_view
  | MessageComment string comment_view

datatype response = Response (status_code: nat) (payload: payload)

section \<open>Validation chains\<close>

text \<open>
  The validators and sanitizers of express-validator (which calls validator.js), as the
  chains of the routes use them. A standard validator sees the value as a string:
  \<open>toString\<close> gives the empty string for an absent or \<^verbatim>\<open>null\<close> value. \<^verbatim>\<open>.optional()\<close>
  with no option skips the chain only for an absent value.

  \<^verbatim>\<open>trim()\<close> strips, at both ends, the code units of the class \<^verbatim>\<open>\s\<close> of JavaScript
  regular expressions, and writes the result back into the request.
  \<^verbatim>\<open>isLength\<close> measures \<^verbatim>\<open>str.length\<close> less the variation selectors \<^verbatim>\<open>U+FE0E\<close>,
  \<^verbatim>\<open>U+FE0F\<close> and less the surrogate pairs, the matches of
  \<^verbatim>\<open>/[\uD800-\uDBFF][\uDC00-\uDFFF]/g\<close>.
\<close>

definition is_space :: "code_unit \<Rightarrow> bool" where
  "is_space c \<longleftrightarrow>
     c \<in> set [0x0009, 0x000A, 0x000B, 0x000C, 0x000D, 0x0020, 0x00A0, 0x1680,
              0x2028, 0x2029, 0x202F, 0x205F, 0x3000, 0xFEFF]
     \<or> (0x2000 \<le> c \<and> c \<le> 0x200A)"

definition trim :: "jstring \<Rightarrow> jstring" where
  "trim s = rev (dropWhile is_space (rev (dropWhile is_space s)))"

definition toString :: "'a list field \<Rightarrow> 'a list" where
  "toString f = (case f of Val s \<Rightarrow> s | _ \<Rightarrow> [])"

definition presentationSequences :: "jstring \<Rightarrow> nat" where
  "presentationSequences s = length (filter (\<lambda>c. c = 0xFE0F \<or> c = 0xFE0E) s)"

fun surrogatePairs :: "jstring \<Rightarrow> nat" where
  "surrogatePairs (h # l # cs) =
     (if 0xD800 \<le> h \<and> h \<le> 0xDBFF \<and> 0xDC00 \<le> l \<and> l \<le> 0xDFFF
      then Suc (surrogatePairs cs)
      else surrogatePairs (l # cs))"
| "surrogatePairs cs = 0"

definition isLength :: "nat \<Rightarrow> nat \<Rightarrow> jstring \<Rightarrow> bool" where
  "isLength lo hi s \<longleftrightarrow>
     (let len = length s - presentationSequences s - surrogatePairs s
      in lo \<le> len \<and> len \<le> hi)"

definition isIn :: "string list \<Rightarrow> string \<Rightarrow> bool" where
  "isIn allowed s \<longleftrightarrow> s \<in> set allowed"

definition priorities :: "string list" where
  "priorities = [''Low'', ''Medium'', ''High'']"

definition statuses :: "string list" where
  "statuses = [''Backlog'', ''In Progress'', ''Review'', ''Done'']"

text \<open>
  The result of one chain: \<open>None\<close> when it records a validation error, \<open>Some None\<close>
  when the field is absent and the chain is optional, \<open>Some (Some v)\<close> with the
  sanitized value otherwise.
\<close>

definition check_title :: "bool \<Rightarrow> jstring field \<Rightarrow> jstring option option" where
  "check_title opt f =
     (if opt \<and> f = Absent then Some None
      else let t = trim (toString f)
           in if isLength 1 255 t then Some (Some t) else None)"

definition check_description :: "jstring field \<Rightarrow> jstring option option" where
  "check_description f =
     (if f = Absent then Some None else Some (Some (trim (toString f))))"

definition check_isIn :: "bool \<Rightarrow> string list \<Rightarrow> string field \<Rightarrow> string option option" where
  "check_isIn opt allowed f =
     (if opt \<and> f = Absent then Some None
      else if isIn allowed (toString f) then Some (Some (toString f)) else None)"

text \<open>
  \<^verbatim>\<open>isInt({min: 1})\<close> on a number: the validator sees \<^verbatim>\<open>String(value)\<close>, which is a
  string of digits only below \<open>10\<^sup>2\<^sup>1\<close>; from there on it is in exponent notation and
  the validator rejects it.
\<close>

definition check_isInt_min1 :: "int field \<Rightarrow> int option option" where
  "check_isInt_min1 f =
     (case f of
        Absent \<Rightarrow> Some None
      | Null \<Rightarrow> None
      | Val i \<Rightarrow> if 1 \<le> i \<and> i < 10 ^ 21 then Some (Some i) else None)"

definition check_isISO8601 :: "date_text field \<Rightarrow> timestamp option option" where
  "check_isISO8601 f =
     (case f of
        Absent \<Rightarrow> Some None
      | Null \<Rightarrow> None
      | Val Malformed \<Rightarrow> None
      | Val (ISO8601 t) \<Rightarrow> Some (Some t))"

text \<open>
  The request body after a validation that found no error: each property absent
  (\<open>None\<close>) or holding its sanitized value.
\<close>

record checked_body =
  title' :: "jstring option"
  description' :: "jstring option"
  priority' :: "string option"
  status' :: "string option"
  assignee_id' :: "int option"
  due_date' :: "timestamp option"

definition validate_post :: "task_body \<Rightarrow> checked_body option" where
  \<comment> \<open>the chain of \<^verbatim>\<open>POST /api/tasks\<close>: title and priority are required; there is no
      chain for \<^verbatim>\<open>status\<close>, whose value stays in the body as it came\<close>
  "validate_post b =
     (if check_title False (b_title b) = None
         \<or> check_isIn False priorities (b_priority b) = None
         \<or> check_isInt_min1 (b_assignee_id b) = None
         \<or> check_isISO8601 (b_due_date b) = None
      then None
      else Some \<lparr>title' = the (check_title False (b_title b)),
                 description' = the (check_description (b_description b)),
                 priority' = the (check_isIn False priorities (b_priority b)),
                 status' = (case b_status b of Val s \<Rightarrow> Some s | _ \<Rightarrow> None),
                 assignee_id' = the (check_isInt_min1 (b_assignee_id b)),
                 due_date' = the (check_isISO8601 (b_due_date b))\<rparr>)"

definition validate_put :: "int \<Rightarrow> task_body \<Rightarrow> checked_body option" where
  \<comment> \<open>the chain of \<^verbatim>\<open>PUT /api/tasks/:id\<close>: the id is an integer from 1, every body
      property is optional\<close>
  "validate_put tid b =
     (if \<not> 1 \<le> tid
         \<or> check_title True (b_title b) = None
         \<or> check_isIn True priorities (b_priority b) = None
         \<or> check_isIn True statuses (b_status b) = None
         \<or> check_isInt_min1 (b_assignee_id b) = None
         \<or> check_isISO8601 (b_due_date b) = None
      then None
      else Some \<lparr>title' = the (check_title True (b_title b)),
                 description' = the (check_description (b_description b)),
                 priority' = the (check_isIn True priorities (b_priority b)),
                 status' = the (check_isIn True statuses (b_status b)),
                 assignee_id' = the (check_isInt_min1 (b_assignee_id b)),
                 due_date' = the (check_isISO8601 (b_due_date b))\<rparr>)"

definition validate_query :: "task_query \<Rightarrow> bool" where
  "validate_query q \<longleftrightarrow>
     (case q_assignee q of None \<Rightarrow> True | Some a \<Rightarrow> 1 \<le> a)
     \<and> (case q_priority q of None \<Rightarrow> True | Some p \<Rightarrow> isIn priorities p)
     \<and> (case q_status q of None \<Rightarrow> True | Some s \<Rightarrow> isIn statuses s)"

section \<open>The task handlers\<close>

text \<open>
  \<^verbatim>\<open>FROM tasks t LEFT JOIN users u ON t.assignee_id = u.id\<close>: the task row with the name
  and email of its assignee, both \<^verbatim>\<open>NULL\<close> when no user row matches.
\<close>

definition left_join :: "db \<Rightarrow> task \<Rightarrow> joined_task" where
  "left_join d t =
     (let u = (case assignee_id t of
                 None \<Rightarrow> None
               | Some a \<Rightarrow> find (\<lambda>u. u_id u = a) (users d))
      in task.extend t (joined_task.fields (map_option name u) (map_option email u)))"

definition select_task :: "db \<Rightarrow> int \<Rightarrow> joined_task list" where
  \<comment> \<open>the joined \<^verbatim>\<open>SELECT ... WHERE t.id = ?\<close>\<close>
  "select_task d tid = map (left_join d) (filter (\<lambda>t. t_id t = tid) (tasks d))"

text \<open>
  \<^verbatim>\<open>{...task, badge: getTaskBadge(task.due_date, task.status), assignee: task.assignee_id ? {...} : null}\<close>,
  with the classifier as a parameter since the users router brings its own copy.
\<close>

definition decorate ::
  "(timestamp option \<Rightarrow> string \<Rightarrow> string) \<Rightarrow> joined_task \<Rightarrow> task_view" where
  "decorate classify row =
     joined_task.extend row
       (task_view.fields (classify (due_date row) (status row))
          (case assignee_id row of
             None \<Rightarrow> None
           | Some a \<Rightarrow> if a = 0 then None
                      else Some (a, assignee_name row, assignee_email row)))"

definition where_clause :: "task_query \<Rightarrow> task \<Rightarrow> bool" where
  \<comment> \<open>\<^verbatim>\<open>WHERE 1=1\<close> and one \<^verbatim>\<open>AND t.column = ?\<close> for each truthy query parameter\<close>
  "where_clause q t \<longleftrightarrow>
     (case q_assignee q of None \<Rightarrow> True | Some a \<Rightarrow> assignee_id t = Some a)
     \<and> (case q_priority q of None \<Rightarrow> True | Some p \<Rightarrow> p = [] \<or> priority t = p)
     \<and> (case q_status q of None \<Rightarrow> True | Some s \<Rightarrow> s = [] \<or> status t = s)"

text \<open>
  \<^verbatim>\<open>ORDER BY t.created_at DESC\<close>; rows created at the same instant stay in table order.
\<close>

definition order_by_created_at_desc :: "task list \<Rightarrow> task list" where
  "order_by_created_at_desc ts = sort_key (\<lambda>t. - created_at t) ts"

text \<open>\<^verbatim>\<open>GET /api/tasks\<close>. The handler only reads the store.\<close>

definition get_tasks :: "timestamp \<Rightarrow> task_query \<Rightarrow> db \<Rightarrow> response" where
  "get_tasks now q d =
     (if \<not> validate_query q then Response 400 (Errors ''Invalid query parameters'')
      else Response 200 (TaskList
             (map (decorate (getTaskBadge now))
                (map (left_join d)
                   (order_by_created_at_desc (filter (where_clause q) (tasks d)))))))"

text \<open>\<^verbatim>\<open>GET /api/tasks/:id\<close>.\<close>

definition get_task :: "timestamp \<Rightarrow> int \<Rightarrow> db \<Rightarrow> response" where
  "get_task now tid d =
     (if \<not> 1 \<le> tid then Response 400 (Errors ''Invalid task ID'')
      else case select_task d tid of
             [] \<Rightarrow> Response 404 (Message ''Task not found'')
           | row # _ \<Rightarrow> Response 200 (TaskDetail (decorate (getTaskBadge now) row)))"

text \<open>
  \<^verbatim>\<open>POST /api/tasks\<close>. \<open>now\<close> is the clock of the server process, read by the
  classifier; \<open>current_timestamp\<close> is the clock of the database, which fills
  \<^verbatim>\<open>created_at\<close> and \<^verbatim>\<open>updated_at\<close>. The \<^verbatim>\<open>INSERT\<close> names five columns; \<^verbatim>\<open>status\<close> is
  not among them and takes the default of the schema, \<^verbatim>\<open>'Backlog'\<close>. A failure after the
  insert (the re-select finding no row) is answered with 500 and not rolled back.
\<close>

definition insert_task :: "timestamp \<Rightarrow> checked_body \<Rightarrow> db \<Rightarrow> task" where
  "insert_task current_timestamp b d =
     \<lparr>t_id = tasks_auto_increment d,
      title = (case title' b of Some t \<Rightarrow> t | None \<Rightarrow> []),
      description = (case description' b of
                       Some s \<Rightarrow> if s = [] then None else Some s
                     | None \<Rightarrow> None),
      priority = (case priority' b of Some p \<Rightarrow> p | None \<Rightarrow> ''Medium''),
      assignee_id = (case assignee_id' b of
                       Some a \<Rightarrow> if a = 0 then None else Some a
                     | None \<Rightarrow> None),
      status = ''Backlog'',
      due_date = due_date' b,
      created_at = current_timestamp,
      updated_at = current_timestamp\<rparr>"

definition user_missing :: "db \<Rightarrow> int option \<Rightarrow> bool" where
  \<comment> \<open>\<^verbatim>\<open>if (assignee_id) { SELECT id FROM users WHERE id = ?; users.length === 0 }\<close>\<close>
  "user_missing d a \<longleftrightarrow>
     (case a of
        None \<Rightarrow> False
      | Some i \<Rightarrow> i \<noteq> 0 \<and> filter (\<lambda>u. u_id u = i) (users d) = [])"

definition post_task ::
  "timestamp \<Rightarrow> timestamp \<Rightarrow> task_body \<Rightarrow> db \<Rightarrow> response \<times> db" where
  "post_task now current_timestamp raw d =
     (case validate_post raw of
        None \<Rightarrow> (Response 400 (Errors ''Validation failed''), d)
      | Some b \<Rightarrow>
          if user_missing d (assignee_id' b)
          then (Response 400 (Message ''Assignee not found''), d)
          else
            let insertId = tasks_auto_increment d;
                d' = d\<lparr>tasks := tasks d @ [insert_task current_timestamp b d],
                       tasks_auto_increment := insertId + 1\<rparr>
            in (case select_task d' insertId of
                  [] \<Rightarrow> (Response 500 (Message ''Error creating task''), d')
                | row # _ \<Rightarrow>
                    (Response 201 (MessageTask ''Task created successfully''
                       (decorate (getTaskBadge now) row)), d')))"

text \<open>
  \<^verbatim>\<open>PUT /api/tasks/:id\<close>. The \<^verbatim>\<open>SET\<close> list holds one assignment for each of the six
  fields the body owns, in the order of the source, and \<^verbatim>\<open>updated_at = CURRENT_TIMESTAMP\<close>
  after them. The handler finds out which fields the body owns by calling
  \<^verbatim>\<open>req.body.hasOwnProperty(field)\<close>: when the body owns a property of that name the
  call throws a \<^verbatim>\<open>TypeError\<close>, which the \<^verbatim>\<open>catch\<close> of the handler answers with 500,
  before any write.
\<close>

definition updateFields :: "checked_body \<Rightarrow> (task \<Rightarrow> task) list" where
  "updateFields b =
     (case title' b of None \<Rightarrow> [] | Some v \<Rightarrow> [\<lambda>t. t\<lparr>title := v\<rparr>])
     @ (case description' b of None \<Rightarrow> [] | Some v \<Rightarrow> [\<lambda>t. t\<lparr>description := Some v\<rparr>])
     @ (case priority' b of None \<Rightarrow> [] | Some v \<Rightarrow> [\<lambda>t. t\<lparr>priority := v\<rparr>])
     @ (case status' b of None \<Rightarrow> [] | Some v \<Rightarrow> [\<lambda>t. t\<lparr>status := v\<rparr>])
     @ (case assignee_id' b of None \<Rightarrow> [] | Some v \<Rightarrow> [\<lambda>t. t\<lparr>assignee_id := Some v\<rparr>])
     @ (case due_date' b of None \<Rightarrow> [] | Some v \<Rightarrow> [\<lambda>t. t\<lparr>due_date := Some v\<rparr>])"

definition update_task :: "timestamp \<Rightarrow> (task \<Rightarrow> task) list \<Rightarrow> int \<Rightarrow> db \<Rightarrow> db" where
  \<comment> \<open>\<^verbatim>\<open>UPDATE tasks SET ..., updated_at = CURRENT_TIMESTAMP WHERE id = ?\<close>\<close>
  "update_task current_timestamp sets tid d =
     d\<lparr>tasks := map (\<lambda>t. if t_id t = tid
                            then (fold (\<lambda>f r. f r) sets t)\<lparr>updated_at := current_timestamp\<rparr>
                            else t) (tasks d)\<rparr>"

definition put_task ::
  "timestamp \<Rightarrow> timestamp \<Rightarrow> int \<Rightarrow> task_body \<Rightarrow> db \<Rightarrow> response \<times> db" where
  "put_task now current_timestamp tid raw d =
     (case validate_put tid raw of
        None \<Rightarrow> (Response 400 (Errors ''Validation failed''), d)
      | Some b \<Rightarrow>
          if filter (\<lambda>t. t_id t = tid) (tasks d) = []
          then (Response 404 (Message ''Task not found''), d)
          else if user_missing d (assignee_id' b)
          then (Response 400 (Message ''Assignee not found''), d)
          else if owns_hasOwnProperty raw
          then (Response 500 (Message ''Error updating task''), d)
          else if updateFields b = []
          then (Response 400 (Message ''No fields to update''), d)
          else
            let d' = update_task current_timestamp (updateFields b) tid d
            in (case select_task d' tid of
                  [] \<Rightarrow> (Response 500 (Message ''Error updating task''), d')
                | row # _ \<Rightarrow>
                    (Response 200 (MessageTask ''Task updated successfully''
                       (decorate (getTaskBadge now) row)), d')))"

text \<open>
  \<^verbatim>\<open>DELETE /api/tasks/:id\<close>; the comments of the task go with it
  (\<^verbatim>\<open>ON DELETE CASCADE\<close>).
\<close>

definition delete_task :: "int \<Rightarrow> db \<Rightarrow> response \<times> db" where
  "delete_task tid d =
     (if \<not> 1 \<le> tid then (Response 400 (Errors ''Invalid task ID''), d)
      else if filter (\<lambda>t. t_id t = tid) (tasks d) = []
      then (Response 404 (Message ''Task not found''), d)
      else (Response 200 (Message ''Task deleted successfully''),
            d\<lparr>tasks := filter (\<lambda>t. t_id t \<noteq> tid) (tasks d),
              comments := filter (\<lambda>c. c_task_id c \<noteq> tid) (comments d)\<rparr>))"

text \<open>
  \<^verbatim>\<open>GET /api/users/me/tasks\<close> for the authenticated user \<open>me\<close>: the tasks assigned to
  that user, decorated with the handler's own copy of the classifier.
\<close>

definition get_my_tasks :: "timestamp \<Rightarrow> user \<Rightarrow> db \<Rightarrow> response" where
  "get_my_tasks now me d =
     Response 200 (TaskList
       (map (decorate (getTaskBadge_users now))
          (map (left_join d)
             (order_by_created_at_desc
                (filter (\<lambda>t. assignee_id t = Some (u_id me)) (tasks d))))))"

section \<open>The comment handlers\<close>

definition select_comment :: "db \<Rightarrow> int \<Rightarrow> comment_view list" where
  \<comment> \<open>\<^verbatim>\<open>FROM comments c JOIN users u ON c.author_id = u.id WHERE c.id = ?\<close>, formatted\<close>
  "select_comment d cid =
     concat (map (\<lambda>c. map (\<lambda>u. \<lparr>v_id = c_id c, v_taskId = c_task_id c, v_body = body c,
                                  v_createdAt = c_created_at c,
                                  v_author = (author_id c, name u, email u)\<rparr>)
                          (filter (\<lambda>u. u_id u = author_id c) (users d)))
                 (filter (\<lambda>c. c_id c = cid) (comments d)))"

text \<open>
  \<^verbatim>\<open>PUT /api/comments/:id\<close> by the authenticated user \<open>me\<close>: validation first, then the
  lookup of the comment, then the comparison of its author with the caller.
\<close>

definition put_comment :: "user \<Rightarrow> int \<Rightarrow> jstring field \<Rightarrow> db \<Rightarrow> response \<times> db" where
  "put_comment me cid raw d =
     (let b = trim (toString raw)
      in if \<not> 1 \<le> cid \<or> \<not> isLength 1 1000 b
         then (Response 400 (Errors ''Validation failed''), d)
         else (case filter (\<lambda>c. c_id c = cid) (comments d) of
                [] \<Rightarrow> (Response 404 (Message ''Comment not found''), d)
              | c # _ \<Rightarrow>
                  if author_id c \<noteq> u_id me
                  then (Response 403
                          (Message ''Access denied: You can only edit your own comments''), d)
                  else
                    let d' = d\<lparr>comments := map (\<lambda>c. if c_id c = cid then c\<lparr>body := b\<rparr> else c)
                                                (comments d)\<rparr>
                    in (case select_comment d' cid of
                          [] \<Rightarrow> (Response 500 (Message ''Error updating comment''), d')
                        | v # _ \<Rightarrow>
                            (Response 200
                               (MessageComment ''Comment updated successfully'' v), d'))))"

text \<open>\<^verbatim>\<open>DELETE /api/comments/:id\<close> by the authenticated user \<open>me\<close>.\<close>

definition delete_comment :: "user \<Rightarrow> int \<Rightarrow> db \<Rightarrow> response \<times> db" where
  "delete_comment me cid d =
     (if \<not> 1 \<le> cid then (Response 400 (Errors ''Invalid comment ID''), d)
      else case filter (\<lambda>c. c_id c = cid) (comments d) of
             [] \<Rightarrow> (Response 404 (Message ''Comment not found''), d)
           | c # _ \<Rightarrow>
               if author_id c \<noteq> u_id me
               then (Response 403
                       (Message ''Access denied: You can only delete your own comments''), d)
               else (Response 200 (Message ''Comment deleted successfully''),
                     d\<lparr>comments := filter (\<lambda>c. c_id c \<noteq> cid) (comments d)\<rparr>))"

section \<open>The authentication middleware\<close>






section \<open>What a response shows, and what the store keeps\<close>

definition returned_tasks :: "response \<Rightarrow> task_view list" where
  "returned_tasks r =
     (case payload r of
        TaskList vs \<Rightarrow> vs
      | TaskDetail v \<Rightarrow> [v]
      | MessageTask _ v \<Rightarrow> [v]
      | _ \<Rightarrow> [])"

text \<open>
  The view \<open>v\<close> is a stored row with the derived fields added: its task columns are a
  row of the table, and its badge is the classifier on that row's due date and status.
\<close>

definition shows_stored_row :: "timestamp \<Rightarrow> db \<Rightarrow> task_view \<Rightarrow> bool" where
  "shows_stored_row now d v \<longleftrightarrow>
     (\<exists>t \<in> set (tasks d). task.truncate v = t
        \<and> badge v = getTaskBadge now (due_date t) (status t))"

text \<open>Referential integrity of \<^verbatim>\<open>tasks.assignee_id\<close>.\<close>

definition assignees_exist :: "db \<Rightarrow> bool" where
  "assignees_exist d \<longleftrightarrow>
     (\<forall>t \<in> set (tasks d). set_option (assignee_id t) \<subseteq> u_id ` set (users d))"

text \<open>
  The primary key of \<^verbatim>\<open>tasks\<close>: identifiers are distinct, start at 1 and lie below the
  counter that issues the next one.
\<close>

definition tasks_keyed :: "db \<Rightarrow> bool" where
  "tasks_keyed d \<longleftrightarrow>
     distinct (map t_id (tasks d))
     \<and> 1 \<le> tasks_auto_increment d
     \<and> (\<forall>t \<in> set (tasks d). 1 \<le> t_id t \<and> t_id t < tasks_auto_increment d)"

text \<open>The primary key of \<^verbatim>\<open>comments\<close>.\<close>

definition comments_keyed :: "db \<Rightarrow> bool" where
  "comments_keyed d \<longleftrightarrow>
     distinct (map c_id (comments d)) \<and> (\<forall>c \<in> set (comments d). 1 \<le> c_id c)"

text \<open>The body contains none of the six fields that \<^verbatim>\<open>PUT /api/tasks/:id\<close> looks for.\<close>

definition names_no_field :: "task_body \<Rightarrow> bool" where
  "names_no_field b \<longleftrightarrow>
     b_title b = Absent \<and> b_description b = Absent \<and> b_priority b = Absent
     \<and> b_status b = Absent \<and> b_assignee_id b = Absent \<and> b_due_date b = Absent"

definition empty_body :: task_body where
  "empty_body = \<lparr>b_title = Absent, b_description = Absent, b_priority = Absent,
                  b_status = Absent, b_assignee_id = Absent, b_due_date = Absent,
                  owns_hasOwnProperty = False\<rparr>"

section \<open>A sample store\<close>

text \<open>
  Two users, one task assigned to the first and due long ago, one comment by the first
  user on that task. The theorems below are instantiated on it.
\<close>

definition ann :: user where
  "ann = \<lparr>u_id = 1, email = ''ann@example.com'', name = ''Ann''\<rparr>"

definition bob :: user where
  "bob = \<lparr>u_id = 2, email = ''bob@example.com'', name = ''Bob''\<rparr>"

definition task1 :: task where
  "task1 = \<lparr>t_id = 1, title = utf16 ''Write report'', description = None,
            priority = ''Low'',
            assignee_id = Some 1, status = ''Review'', due_date = Some 3000,
            created_at = 1000, updated_at = 1000\<rparr>"

definition comment1 :: comment where
  "comment1 = \<lparr>c_id = 1, c_task_id = 1, author_id = 1,
               body = utf16 ''First draft attached'', c_created_at = 2000\<rparr>"

definition sample_db :: db where
  "sample_db = \<lparr>users = [ann, bob], tasks = [task1], comments = [comment1],
                 tasks_auto_increment = 2\<rparr>"



section \<open>The badge classifier: guard, thresholds, and the two copies\<close>

lemma hoursDiff_neg_iff: "hoursDiff now due < 0 \<longleftrightarrow> due < now"
  by (simp add: hoursDiff_def divide_less_0_iff)

lemma hoursDiff_le_24_iff: "hoursDiff now due \<le> 24 \<longleftrightarrow> due - now \<le> 86400000"
proof -
  have "hoursDiff now due \<le> 24 \<longleftrightarrow> real_of_int (due - now) \<le> 24 * (1000 * 3600)"
    unfolding hoursDiff_def by (subst pos_divide_le_eq) simp_all
  also have "\<dots> \<longleftrightarrow> real_of_int (due - now) \<le> real_of_int 86400000" by simp
  also have "\<dots> \<longleftrightarrow> due - now \<le> 86400000" by (rule of_int_le_iff)
  finally show ?thesis .
qed

text \<open>
  C1. Whatever the status (valid or not) and however old the due date, the badge is
  \<open>On Track\<close> when the due date is absent and when the status is \<open>Done\<close>: the guard
  answers before the clock is looked at, so the result is the same at every \<open>now\<close>.
\<close>

theorem getTaskBadge_guard:
  "getTaskBadge now None st = ''On Track''
   \<and> getTaskBadge now dueDate ''Done'' = ''On Track''"
  by (simp add: getTaskBadge_def)

text \<open>
  C2. With a due date present and a status other than \<open>Done\<close>, the badge is \<open>Overdue\<close>
  exactly when the hours remaining are negative, \<open>At Risk\<close> exactly when they lie in
  \<open>[0, 24]\<close>, and \<open>On Track\<close> exactly when they exceed 24; a task due right now and a
  task due in exactly 24 hours are both \<open>At Risk\<close>.
\<close>

theorem getTaskBadge_thresholds:
  assumes "st \<noteq> ''Done''"
  shows "(getTaskBadge now (Some due) st = ''Overdue'' \<longleftrightarrow> hoursDiff now due < 0)
       \<and> (getTaskBadge now (Some due) st = ''At Risk''
            \<longleftrightarrow> 0 \<le> hoursDiff now due \<and> hoursDiff now due \<le> 24)
       \<and> (getTaskBadge now (Some due) st = ''On Track'' \<longleftrightarrow> 24 < hoursDiff now due)
       \<and> hoursDiff now now = 0
       \<and> getTaskBadge now (Some now) st = ''At Risk''
       \<and> hoursDiff now (now + 24 * 3600 * 1000) = 24
       \<and> getTaskBadge now (Some (now + 24 * 3600 * 1000)) st = ''At Risk''"
proof -
  have zero: "hoursDiff now now = 0"
    by (simp add: hoursDiff_def)
  have day: "hoursDiff now (now + 24 * 3600 * 1000) = 24"
    by (simp add: hoursDiff_def)
  have cls: "(getTaskBadge now (Some d) st = ''Overdue'' \<longleftrightarrow> hoursDiff now d < 0)
       \<and> (getTaskBadge now (Some d) st = ''At Risk''
            \<longleftrightarrow> 0 \<le> hoursDiff now d \<and> hoursDiff now d \<le> 24)
       \<and> (getTaskBadge now (Some d) st = ''On Track'' \<longleftrightarrow> 24 < hoursDiff now d)" for d
    using assms by (simp add: getTaskBadge_def Let_def not_less not_le)
  from cls [of due] cls [of now] cls [of "now + 24 * 3600 * 1000"] zero day
  show ?thesis by simp
qed

theorem getTaskBadge_thresholds_witness:
  "''Backlog'' \<noteq> ''Done''
   \<and> hoursDiff 1700000000000 1699996400000 < 0
   \<and> getTaskBadge 1700000000000 (Some 1699996400000) ''Backlog'' = ''Overdue''
   \<and> getTaskBadge 1700000000000 (Some 1700000000000) ''Backlog'' = ''At Risk''
   \<and> getTaskBadge 1700000000000 (Some (1700000000000 + 24 * 3600 * 1000)) ''Backlog''
       = ''At Risk''"
proof -
  have h: "''Backlog'' \<noteq> ''Done''" by simp
  have n: "hoursDiff 1700000000000 1699996400000 < 0"
    by (simp add: hoursDiff_neg_iff)
  from getTaskBadge_thresholds [OF h, of 1700000000000 1699996400000] h n
  show ?thesis by simp
qed

text \<open>
  C10. The classifier of the tasks router and the copy inside the handler of
  \<^verbatim>\<open>GET /api/users/me/tasks\<close> agree on every due date and status at the same clock
  reading.
\<close>

theorem getTaskBadge_copies_agree:
  "getTaskBadge_users now dueDate st = getTaskBadge now dueDate st"
  by (cases dueDate) (simp_all add: getTaskBadge_users_def getTaskBadge_def hoursDiff_def Let_def)


section \<open>Facts about the views and the validation chains\<close>

lemma truncate_decorate: "task.truncate (decorate f (left_join d t)) = t"
  by (simp add: decorate_def left_join_def Let_def task.defs joined_task.defs task_view.defs)

lemma badge_decorate: "badge (decorate f (left_join d t)) = f (due_date t) (status t)"
  by (simp add: decorate_def left_join_def Let_def task.defs joined_task.defs task_view.defs)

lemma status_decorate: "status (decorate f (left_join d t)) = status t"
  by (simp add: decorate_def left_join_def Let_def task.defs joined_task.defs task_view.defs)

lemma set_order_by: "set (order_by_created_at_desc ts) = set ts"
  by (simp add: order_by_created_at_desc_def)

lemma users_copy: "getTaskBadge_users now = getTaskBadge now"
proof (rule ext, rule ext)
  fix dueDate :: "timestamp option" and st :: string
  show "getTaskBadge_users now dueDate st = getTaskBadge now dueDate st"
    by (simp add: getTaskBadge_users_def getTaskBadge_def hoursDiff_def Let_def)
qed

lemma shows_decorate:
  "t \<in> set (tasks d) \<Longrightarrow>
   shows_stored_row now d (decorate (getTaskBadge now) (left_join d' t))"
  unfolding shows_stored_row_def by (auto simp: truncate_decorate badge_decorate)

lemma select_task_rows:
  "row \<in> set (select_task d tid) \<Longrightarrow>
   \<exists>t \<in> set (tasks d). t_id t = tid \<and> row = left_join d t"
  by (auto simp: select_task_def)

lemma hd_select_task:
  "select_task d tid \<noteq> [] \<Longrightarrow>
   \<exists>t \<in> set (tasks d). t_id t = tid \<and> hd (select_task d tid) = left_join d t"
  using select_task_rows [of "hd (select_task d tid)" d tid] by simp

lemma select_task_shows:
  assumes "select_task d tid = row # rest"
  shows "shows_stored_row now d (decorate (getTaskBadge now) row)"
proof -
  from assms have "row \<in> set (select_task d tid)" by simp
  then obtain t where "t \<in> set (tasks d)" "row = left_join d t"
    using select_task_rows by blast
  then show ?thesis by (simp add: shows_decorate)
qed

lemma first_of_keyed:
  "distinct (map f xs) \<Longrightarrow> x \<in> set xs \<Longrightarrow> filter (\<lambda>y. f y = f x) xs = [x]"
  by (induction xs) (auto simp: filter_empty_conv image_iff)

lemma check_title_None: "check_title True f = Some None \<longleftrightarrow> f = Absent"
  by (simp add: check_title_def Let_def)

lemma check_description_None: "check_description f = Some None \<longleftrightarrow> f = Absent"
  by (simp add: check_description_def)

lemma check_isIn_None: "check_isIn True xs f = Some None \<longleftrightarrow> f = Absent"
  by (simp add: check_isIn_def)

lemma check_isInt_None: "check_isInt_min1 f = Some None \<longleftrightarrow> f = Absent"
  by (simp add: check_isInt_min1_def split: field.splits)

lemma check_isInt_Some:
  "check_isInt_min1 f = Some (Some a) \<longleftrightarrow> f = Val a \<and> 1 \<le> a \<and> a < 10 ^ 21"
  by (auto simp: check_isInt_min1_def split: field.splits)

lemma check_isISO8601_None: "check_isISO8601 f = Some None \<longleftrightarrow> f = Absent"
  by (simp add: check_isISO8601_def split: field.splits date_text.splits)

lemma validate_put_SomeD:
  assumes "validate_put tid raw = Some b"
  shows "1 \<le> tid"
    and "check_title True (b_title raw) = Some (title' b)"
    and "check_description (b_description raw) = Some (description' b)"
    and "check_isIn True priorities (b_priority raw) = Some (priority' b)"
    and "check_isIn True statuses (b_status raw) = Some (status' b)"
    and "check_isInt_min1 (b_assignee_id raw) = Some (assignee_id' b)"
    and "check_isISO8601 (b_due_date raw) = Some (due_date' b)"
proof -
  from assms have nn: "1 \<le> tid" "check_title True (b_title raw) \<noteq> None"
    "check_isIn True priorities (b_priority raw) \<noteq> None"
    "check_isIn True statuses (b_status raw) \<noteq> None"
    "check_isInt_min1 (b_assignee_id raw) \<noteq> None"
    "check_isISO8601 (b_due_date raw) \<noteq> None"
    unfolding validate_put_def by (simp_all split: if_splits)
  have d: "check_description (b_description raw) \<noteq> None"
    by (simp add: check_description_def)
  from assms nn have b: "b = \<lparr>title' = the (check_title True (b_title raw)),
                 description' = the (check_description (b_description raw)),
                 priority' = the (check_isIn True priorities (b_priority raw)),
                 status' = the (check_isIn True statuses (b_status raw)),
                 assignee_id' = the (check_isInt_min1 (b_assignee_id raw)),
                 due_date' = the (check_isISO8601 (b_due_date raw))\<rparr>"
    unfolding validate_put_def by simp
  show "1 \<le> tid" by fact
  show "check_title True (b_title raw) = Some (title' b)"
    using nn(2) by (simp add: b)
  show "check_description (b_description raw) = Some (description' b)"
    using d by (simp add: b)
  show "check_isIn True priorities (b_priority raw) = Some (priority' b)"
    using nn(3) by (simp add: b)
  show "check_isIn True statuses (b_status raw) = Some (status' b)"
    using nn(4) by (simp add: b)
  show "check_isInt_min1 (b_assignee_id raw) = Some (assignee_id' b)"
    using nn(5) by (simp add: b)
  show "check_isISO8601 (b_due_date raw) = Some (due_date' b)"
    using nn(6) by (simp add: b)
qed

lemma updateFields_Nil:
  "updateFields b = [] \<longleftrightarrow>
     title' b = None \<and> description' b = None \<and> priority' b = None
     \<and> status' b = None \<and> assignee_id' b = None \<and> due_date' b = None"
  unfolding updateFields_def append_is_Nil_conv
  by (cases "title' b"; cases "description' b"; cases "priority' b"; cases "status' b";
      cases "assignee_id' b"; cases "due_date' b"; simp)

lemma updateFields_empty:
  assumes "validate_put tid raw = Some b"
  shows "updateFields b = [] \<longleftrightarrow> names_no_field raw"
proof -
  note v = validate_put_SomeD [OF assms]
  have "title' b = None \<longleftrightarrow> b_title raw = Absent"
    using v(2) check_title_None [of "b_title raw"] by auto
  moreover have "description' b = None \<longleftrightarrow> b_description raw = Absent"
    using v(3) check_description_None [of "b_description raw"] by auto
  moreover have "priority' b = None \<longleftrightarrow> b_priority raw = Absent"
    using v(4) check_isIn_None [of priorities "b_priority raw"] by auto
  moreover have "status' b = None \<longleftrightarrow> b_status raw = Absent"
    using v(5) check_isIn_None [of statuses "b_status raw"] by auto
  moreover have "assignee_id' b = None \<longleftrightarrow> b_assignee_id raw = Absent"
    using v(6) check_isInt_None [of "b_assignee_id raw"] by auto
  moreover have "due_date' b = None \<longleftrightarrow> b_due_date raw = Absent"
    using v(7) check_isISO8601_None [of "b_due_date raw"] by auto
  ultimately show ?thesis
    by (simp add: updateFields_Nil names_no_field_def)
qed

lemma fold_updateFields:
  "fold (\<lambda>f r. f r) (updateFields b) t =
     t\<lparr>title := (case title' b of None \<Rightarrow> title t | Some v \<Rightarrow> v),
       description := (case description' b of None \<Rightarrow> description t | Some v \<Rightarrow> Some v),
       priority := (case priority' b of None \<Rightarrow> priority t | Some v \<Rightarrow> v),
       status := (case status' b of None \<Rightarrow> status t | Some v \<Rightarrow> v),
       assignee_id := (case assignee_id' b of None \<Rightarrow> assignee_id t | Some v \<Rightarrow> Some v),
       due_date := (case due_date' b of None \<Rightarrow> due_date t | Some v \<Rightarrow> Some v)\<rparr>"
  unfolding updateFields_def
  by (cases "title' b"; cases "description' b"; cases "priority' b"; cases "status' b";
      cases "assignee_id' b"; cases "due_date' b"; simp)

lemma user_missing_iff:
  "user_missing d a \<longleftrightarrow> (\<exists>i. a = Some i \<and> i \<noteq> 0 \<and> i \<notin> u_id ` set (users d))"
  by (cases a) (auto simp: user_missing_def filter_empty_conv)

lemma validate_put_assignee:
  assumes "validate_put tid raw = Some b"
  shows "user_missing d (assignee_id' b)
         \<longleftrightarrow> (\<exists>a. b_assignee_id raw = Val a \<and> a \<notin> u_id ` set (users d))"
proof -
  have "assignee_id' b = Some a \<longleftrightarrow> b_assignee_id raw = Val a" for a
    using validate_put_SomeD(6) [OF assms]
    by (auto simp: check_isInt_min1_def split: field.splits if_splits)
  moreover have "b_assignee_id raw = Val a \<Longrightarrow> 1 \<le> a" for a
    using validate_put_SomeD(6) [OF assms]
    by (auto simp: check_isInt_min1_def split: if_splits)
  ultimately show ?thesis unfolding user_missing_iff by force
qed

lemma validate_post_assignee:
  assumes "validate_post raw = Some b"
  shows "user_missing d (assignee_id' b)
         \<longleftrightarrow> (\<exists>a. b_assignee_id raw = Val a \<and> a \<notin> u_id ` set (users d))"
proof -
  from assms have nn: "check_isInt_min1 (b_assignee_id raw) \<noteq> None"
    unfolding validate_post_def by (simp split: if_splits)
  from assms have "assignee_id' b = the (check_isInt_min1 (b_assignee_id raw))"
    unfolding validate_post_def by (auto split: if_splits)
  with nn have c: "check_isInt_min1 (b_assignee_id raw) = Some (assignee_id' b)" by simp
  have "assignee_id' b = Some a \<longleftrightarrow> b_assignee_id raw = Val a" for a
    using c by (auto simp: check_isInt_min1_def split: field.splits if_splits)
  moreover have "b_assignee_id raw = Val a \<Longrightarrow> 1 \<le> a" for a
    using c by (auto simp: check_isInt_min1_def split: if_splits)
  ultimately show ?thesis unfolding user_missing_iff by force
qed

lemma validate_put_status_only:
  assumes "1 \<le> tid" and "s \<in> set statuses"
  shows "validate_put tid (empty_body\<lparr>b_status := Val s\<rparr>) =
      Some \<lparr>title' = None, description' = None, priority' = None, status' = Some s,
            assignee_id' = None, due_date' = None\<rparr>"
  using assms
  by (simp add: validate_put_def empty_body_def check_title_def check_description_def
      check_isIn_def check_isInt_min1_def check_isISO8601_def isIn_def toString_def)

section \<open>What the writing handlers do to the store\<close>

lemma length_update_task: "length (tasks (update_task ct sets tid d)) = length (tasks d)"
  by (simp add: update_task_def)

lemma nth_update_task:
  "i < length (tasks d) \<Longrightarrow>
   tasks (update_task ct sets tid d) ! i =
     (if t_id (tasks d ! i) = tid
      then (fold (\<lambda>f r. f r) sets (tasks d ! i))\<lparr>updated_at := ct\<rparr>
      else tasks d ! i)"
  by (simp add: update_task_def)

lemma users_update_task: "users (update_task ct sets tid d) = users d"
  by (simp add: update_task_def)

lemma select_task_update_task:
  assumes "t \<in> set (tasks d)" "t_id t = tid"
  shows "select_task (update_task ct (updateFields b) tid d) tid \<noteq> []"
proof -
  let ?f = "\<lambda>t. if t_id t = tid
              then (fold (\<lambda>f r. f r) (updateFields b) t)\<lparr>updated_at := ct\<rparr> else t"
  have "?f t \<in> set (tasks (update_task ct (updateFields b) tid d))"
    using assms(1) by (simp add: update_task_def)
  moreover have "t_id (?f t) = tid"
    using assms(2) by (simp add: fold_updateFields)
  ultimately show ?thesis
    by (auto simp: select_task_def filter_empty_conv)
qed

lemma put_task_written:
  assumes "validate_put tid raw = Some b" and "t \<in> set (tasks d)" and "t_id t = tid"
    and "\<not> user_missing d (assignee_id' b)" and "updateFields b \<noteq> []"
    and "\<not> owns_hasOwnProperty raw"
  shows "put_task now ct tid raw d =
           (Response 200 (MessageTask ''Task updated successfully''
              (decorate (getTaskBadge now)
                 (hd (select_task (update_task ct (updateFields b) tid d) tid)))),
            update_task ct (updateFields b) tid d)"
proof -
  have ex: "filter (\<lambda>r. t_id r = tid) (tasks d) \<noteq> []"
    using assms(2,3) by (auto simp: filter_empty_conv)
  obtain row rest
    where sel: "select_task (update_task ct (updateFields b) tid d) tid = row # rest"
    using select_task_update_task [OF assms(2,3), of ct b] by (auto simp: neq_Nil_conv)
  show ?thesis
    using assms(1,4,5,6) ex by (simp add: put_task_def sel)
qed

lemma put_task_refused:
  assumes "validate_put tid raw = None \<or> (\<exists>b. validate_put tid raw = Some b
             \<and> (filter (\<lambda>r. t_id r = tid) (tasks d) = [] \<or> user_missing d (assignee_id' b)
                  \<or> owns_hasOwnProperty raw \<or> updateFields b = []))"
  shows "snd (put_task now ct tid raw d) = d
         \<and> status_code (fst (put_task now ct tid raw d)) \<noteq> 200"
  using assms by (auto simp: put_task_def split: if_splits)

lemma put_task_decided:
  assumes "t \<in> set (tasks d)" and "t_id t = tid"
  shows "(\<exists>b. validate_put tid raw = Some b \<and> \<not> user_missing d (assignee_id' b)
              \<and> \<not> owns_hasOwnProperty raw \<and> updateFields b \<noteq> []
              \<and> status_code (fst (put_task now ct tid raw d)) = 200
              \<and> snd (put_task now ct tid raw d) = update_task ct (updateFields b) tid d)
         \<or> (status_code (fst (put_task now ct tid raw d)) \<noteq> 200
              \<and> snd (put_task now ct tid raw d) = d
              \<and> (validate_put tid raw = None
                   \<or> (\<exists>b. validate_put tid raw = Some b
                         \<and> (user_missing d (assignee_id' b) \<or> owns_hasOwnProperty raw
                              \<or> updateFields b = []))))"
proof (cases "validate_put tid raw")
  case None
  then show ?thesis using put_task_refused [of tid raw d now ct] by simp
next
  case (Some b)
  show ?thesis
  proof (cases "user_missing d (assignee_id' b) \<or> owns_hasOwnProperty raw
                \<or> updateFields b = []")
    case True
    then show ?thesis using Some put_task_refused [of tid raw d now ct] by auto
  next
    case False
    then show ?thesis
      using Some put_task_written [OF Some assms, of now ct] by simp
  qed
qed

lemma select_inserted:
  "select_task (d\<lparr>tasks := tasks d @ [insert_task ct b d],
                  tasks_auto_increment := tasks_auto_increment d + 1\<rparr>)
     (tasks_auto_increment d) \<noteq> []"
  by (simp add: select_task_def insert_task_def)

lemma select_inserted_keyed:
  assumes "tasks_keyed d"
  shows "select_task (d\<lparr>tasks := tasks d @ [insert_task ct b d],
                        tasks_auto_increment := tasks_auto_increment d + 1\<rparr>)
           (tasks_auto_increment d)
         = [left_join (d\<lparr>tasks := tasks d @ [insert_task ct b d],
                         tasks_auto_increment := tasks_auto_increment d + 1\<rparr>)
              (insert_task ct b d)]"
proof -
  have "filter (\<lambda>t. t_id t = tasks_auto_increment d) (tasks d) = []"
    using assms by (auto simp: tasks_keyed_def filter_empty_conv)
  then show ?thesis by (simp add: select_task_def insert_task_def)
qed

lemma status_insert_task: "status (insert_task ct b d) = ''Backlog''"
  by (simp add: insert_task_def)

lemma post_task_decided:
  "(validate_post raw = None
      \<and> post_task now ct raw d = (Response 400 (Errors ''Validation failed''), d))
   \<or> (\<exists>b. validate_post raw = Some b \<and> user_missing d (assignee_id' b)
      \<and> post_task now ct raw d = (Response 400 (Message ''Assignee not found''), d))
   \<or> (\<exists>b. validate_post raw = Some b \<and> \<not> user_missing d (assignee_id' b)
      \<and> post_task now ct raw d =
          (Response 201 (MessageTask ''Task created successfully''
             (decorate (getTaskBadge now)
                (hd (select_task (d\<lparr>tasks := tasks d @ [insert_task ct b d],
                      tasks_auto_increment := tasks_auto_increment d + 1\<rparr>)
                     (tasks_auto_increment d))))),
           d\<lparr>tasks := tasks d @ [insert_task ct b d],
             tasks_auto_increment := tasks_auto_increment d + 1\<rparr>))"
proof (cases "validate_post raw")
  case None
  then show ?thesis by (simp add: post_task_def)
next
  case (Some b)
  show ?thesis
  proof (cases "user_missing d (assignee_id' b)")
    case True
    then show ?thesis using Some by (simp add: post_task_def)
  next
    case False
    obtain row rest where "select_task (d\<lparr>tasks := tasks d @ [insert_task ct b d],
                  tasks_auto_increment := tasks_auto_increment d + 1\<rparr>) (tasks_auto_increment d)
         = row # rest"
      using select_inserted [of d ct b] by (auto simp: neq_Nil_conv)
    then show ?thesis using Some False by (simp add: post_task_def Let_def)
  qed
qed

lemma assignees_exist_post:
  assumes "assignees_exist d"
  shows "assignees_exist (snd (post_task now ct raw d))"
proof -
  from post_task_decided [of raw now ct d]
  consider "snd (post_task now ct raw d) = d"
    | b where "validate_post raw = Some b" "\<not> user_missing d (assignee_id' b)"
       "snd (post_task now ct raw d) = d\<lparr>tasks := tasks d @ [insert_task ct b d],
             tasks_auto_increment := tasks_auto_increment d + 1\<rparr>"
    by auto
  then show ?thesis
  proof cases
    case 1
    then show ?thesis using assms by simp
  next
    case 2
    have "set_option (assignee_id (insert_task ct b d)) \<subseteq> u_id ` set (users d)"
      using 2(2)
      by (auto simp: insert_task_def user_missing_iff split: option.splits if_splits)
    then show ?thesis using assms unfolding 2(3) by (simp add: assignees_exist_def)
  qed
qed

lemma assignees_exist_put:
  assumes "assignees_exist d"
  shows "assignees_exist (snd (put_task now ct tid raw d))"
proof (cases "snd (put_task now ct tid raw d) = d")
  case True
  then show ?thesis using assms by simp
next
  case False
  then obtain b where b: "validate_put tid raw = Some b" "\<not> user_missing d (assignee_id' b)"
    and w: "snd (put_task now ct tid raw d) = update_task ct (updateFields b) tid d"
    by (auto simp: put_task_def Let_def split: option.splits if_splits list.splits)
  have pos: "assignee_id' b = Some a \<Longrightarrow> a \<noteq> 0" for a
    using validate_put_SomeD(6) [OF b(1)] check_isInt_Some [of "b_assignee_id raw" a] by auto
  have "set_option (assignee_id t') \<subseteq> u_id ` set (users d)"
    if "t' \<in> set (tasks (update_task ct (updateFields b) tid d))" for t'
  proof -
    from that obtain t where t: "t \<in> set (tasks d)"
      and t': "t' = (if t_id t = tid
                     then (fold (\<lambda>f r. f r) (updateFields b) t)\<lparr>updated_at := ct\<rparr> else t)"
      by (auto simp: update_task_def)
    from assms t have old: "set_option (assignee_id t) \<subseteq> u_id ` set (users d)"
      by (simp add: assignees_exist_def)
    show ?thesis
    proof (cases "assignee_id' b")
      case None
      then show ?thesis using old by (simp add: t' fold_updateFields)
    next
      case (Some a)
      with b(2) pos [of a] have "a \<in> u_id ` set (users d)"
        by (auto simp: user_missing_iff)
      then show ?thesis using old Some by (simp add: t' fold_updateFields)
    qed
  qed
  then show ?thesis unfolding w assignees_exist_def by (simp add: users_update_task)
qed

lemma assignees_exist_delete:
  assumes "assignees_exist d"
  shows "assignees_exist (snd (delete_task tid d))"
  using assms by (simp add: delete_task_def assignees_exist_def)

text \<open>
  The handlers keep the primary keys: identifiers stay distinct, positive and below the
  counter.
\<close>

lemma tasks_keyed_post_task:
  assumes "tasks_keyed d"
  shows "tasks_keyed (snd (post_task now ct raw d))"
proof -
  from post_task_decided [of raw now ct d]
  consider "snd (post_task now ct raw d) = d"
    | b where "snd (post_task now ct raw d) = d\<lparr>tasks := tasks d @ [insert_task ct b d],
             tasks_auto_increment := tasks_auto_increment d + 1\<rparr>"
    by auto
  then show ?thesis
  proof cases
    case 1
    then show ?thesis using assms by simp
  next
    case 2
    have "t_id (insert_task ct b d) = tasks_auto_increment d"
      by (simp add: insert_task_def)
    then show ?thesis using assms unfolding 2 tasks_keyed_def by (auto simp: less_le)
  qed
qed

lemma t_id_update_task:
  "map t_id (tasks (update_task ct (updateFields b) tid d)) = map t_id (tasks d)"
  by (simp add: update_task_def fold_updateFields)

lemma tasks_keyed_put_task:
  assumes "tasks_keyed d"
  shows "tasks_keyed (snd (put_task now ct tid raw d))"
proof (cases "snd (put_task now ct tid raw d) = d")
  case True
  then show ?thesis using assms by simp
next
  case False
  then obtain b
    where w: "snd (put_task now ct tid raw d) = update_task ct (updateFields b) tid d"
    by (auto simp: put_task_def Let_def split: option.splits if_splits list.splits)
  have ids: "t_id ` set (tasks (update_task ct (updateFields b) tid d)) = t_id ` set (tasks d)"
    using t_id_update_task [of ct b tid d] by (metis set_map)
  have auto_inc: "tasks_auto_increment (update_task ct (updateFields b) tid d)
                  = tasks_auto_increment d"
    by (simp add: update_task_def)
  have "\<forall>i \<in> t_id ` set (tasks d). 1 \<le> i \<and> i < tasks_auto_increment d"
    using assms by (simp add: tasks_keyed_def)
  then have "\<forall>i \<in> t_id ` set (tasks (update_task ct (updateFields b) tid d)).
               1 \<le> i \<and> i < tasks_auto_increment d"
    unfolding ids .
  then show ?thesis
    using assms unfolding w tasks_keyed_def t_id_update_task auto_inc by simp
qed

lemma tasks_keyed_delete_task:
  assumes "tasks_keyed d"
  shows "tasks_keyed (snd (delete_task tid d))"
  using assms by (simp add: delete_task_def tasks_keyed_def distinct_map_filter)

lemma comments_keyed_put_comment:
  assumes "comments_keyed d"
  shows "comments_keyed (snd (put_comment me cid raw d))"
proof -
  have fn: "c_id \<circ> (\<lambda>c. if c_id c = cid then c\<lparr>body := b\<rparr> else c) = c_id" for b
    by (rule ext) simp
  have keyed: "comments_keyed (d\<lparr>comments := map (\<lambda>c. if c_id c = cid then c\<lparr>body := b\<rparr> else c)
                                               (comments d)\<rparr>)" for b
    using assms unfolding comments_keyed_def by (auto simp: fn split: if_splits)
  show ?thesis
    using assms keyed
    by (auto simp: put_comment_def Let_def split: if_splits list.splits)
qed

lemma comments_keyed_delete_comment:
  assumes "comments_keyed d"
  shows "comments_keyed (snd (delete_comment me cid d))"
  using assms
  by (auto simp: delete_comment_def comments_keyed_def distinct_map_filter split: list.splits)

lemma comment_lookup:
  "comments_keyed d \<Longrightarrow> c \<in> set (comments d) \<Longrightarrow>
   filter (\<lambda>r. c_id r = c_id c) (comments d) = [c] \<and> 1 \<le> c_id c"
  by (simp add: comments_keyed_def first_of_keyed)

lemma delete_comment_denied:
  assumes "comments_keyed d" "c \<in> set (comments d)" "author_id c \<noteq> u_id me"
  shows "delete_comment me (c_id c) d =
     (Response 403 (Message ''Access denied: You can only delete your own comments''), d)"
  using comment_lookup [OF assms(1,2)] assms(3) by (simp add: delete_comment_def)

lemma put_comment_denied:
  assumes "comments_keyed d" "c \<in> set (comments d)" "author_id c \<noteq> u_id me"
  shows "put_comment me (c_id c) raw d =
     (if isLength 1 1000 (trim (toString raw))
      then (Response 403 (Message ''Access denied: You can only edit your own comments''), d)
      else (Response 400 (Errors ''Validation failed''), d))"
  using comment_lookup [OF assms(1,2)] assms(3) by (simp add: put_comment_def Let_def)



text \<open>Unfolding sets for evaluating the handlers on the sample store.\<close>

lemmas sample_defs = sample_db_def task1_def ann_def bob_def comment1_def empty_body_def

lemmas check_defs = check_title_def check_description_def check_isIn_def check_isInt_min1_def
  check_isISO8601_def isIn_def isLength_def presentationSequences_def toString_def trim_def
  is_space_def priorities_def statuses_def utf16_def

lemmas view_defs = select_task_def left_join_def decorate_def task.defs joined_task.defs
  task_view.defs returned_tasks_def order_by_created_at_desc_def



section \<open>Every returned task carries the classifier's badge\<close>

lemma get_tasks_shows:
  "v \<in> set (returned_tasks (get_tasks now q d)) \<Longrightarrow> shows_stored_row now d v"
  by (auto simp: get_tasks_def returned_tasks_def set_order_by shows_decorate split: if_splits)

lemma get_task_shows:
  "v \<in> set (returned_tasks (get_task now tid d)) \<Longrightarrow> shows_stored_row now d v"
  by (auto simp: get_task_def returned_tasks_def select_task_shows
           split: if_splits list.splits)

lemma get_my_tasks_shows:
  "v \<in> set (returned_tasks (get_my_tasks now me d)) \<Longrightarrow> shows_stored_row now d v"
  by (auto simp: get_my_tasks_def returned_tasks_def set_order_by shows_decorate users_copy)

lemma post_task_shows:
  "v \<in> set (returned_tasks (fst (post_task now ct raw d)))
   \<Longrightarrow> shows_stored_row now (snd (post_task now ct raw d)) v"
  by (auto simp: post_task_def returned_tasks_def Let_def select_task_shows
           split: option.splits if_splits list.splits)

lemma put_task_shows:
  "v \<in> set (returned_tasks (fst (put_task now ct tid raw d)))
   \<Longrightarrow> shows_stored_row now (snd (put_task now ct tid raw d)) v"
  by (auto simp: put_task_def returned_tasks_def Let_def select_task_shows
           split: option.splits if_splits list.splits)

lemma post_task_store_clock:
  "snd (post_task now ct raw d) = snd (post_task now' ct raw d)"
  by (simp add: post_task_def Let_def split: option.splits list.splits)

lemma put_task_store_clock:
  "snd (put_task now ct tid raw d) = snd (put_task now' ct tid raw d)"
  by (simp add: put_task_def Let_def split: option.splits list.splits)

lemma get_tasks_rows:
  "validate_query q \<Longrightarrow>
   map task.truncate (returned_tasks (get_tasks now q d))
     = order_by_created_at_desc (filter (where_clause q) (tasks d))"
  by (simp add: get_tasks_def returned_tasks_def o_def truncate_decorate)

lemma get_tasks_status:
  assumes "isIn statuses s"
  shows "set (map task.truncate (returned_tasks
          (get_tasks now \<lparr>q_assignee = None, q_priority = None, q_status = Some s\<rparr> d)))
     = {t \<in> set (tasks d). status t = s}"
proof -
  from assms have ne: "s \<noteq> []" by (auto simp: isIn_def statuses_def)
  have v: "validate_query \<lparr>q_assignee = None, q_priority = None, q_status = Some s\<rparr>"
    using assms by (simp add: validate_query_def)
  show ?thesis
    unfolding get_tasks_rows [OF v] set_order_by using ne by (auto simp: where_clause_def)
qed

text \<open>
  C3. Every task in the response of \<^verbatim>\<open>GET /tasks\<close>, \<^verbatim>\<open>GET /tasks/:id\<close>,
  \<^verbatim>\<open>POST /tasks\<close>, \<^verbatim>\<open>PUT /tasks/:id\<close> and \<^verbatim>\<open>GET /users/me/tasks\<close> is a stored row
  (of the store as the handler leaves it) with a badge equal to the classifier on that
  row's stored due date and status. The badge is not written to the store: a task row
  has no such column, the three reading handlers return no store, and the store that
  \<^verbatim>\<open>POST\<close> and \<^verbatim>\<open>PUT\<close> leave does not depend on the clock the badge is computed
  from. The rows that \<^verbatim>\<open>GET /tasks\<close> returns are the stored rows that satisfy the
  \<^verbatim>\<open>WHERE\<close> clause on the stored columns \<^verbatim>\<open>assignee_id\<close>, \<^verbatim>\<open>priority\<close> and \<^verbatim>\<open>status\<close>,
  whatever the clock; with the status filter alone, exactly the rows whose stored
  status is the one asked for.
\<close>

theorem responses_carry_classifier_badge:
  "(\<forall>v \<in> set (returned_tasks (get_tasks now q d)). shows_stored_row now d v)
   \<and> (\<forall>v \<in> set (returned_tasks (get_task now tid d)). shows_stored_row now d v)
   \<and> (\<forall>v \<in> set (returned_tasks (fst (post_task now ct raw d))).
         shows_stored_row now (snd (post_task now ct raw d)) v)
   \<and> (\<forall>v \<in> set (returned_tasks (fst (put_task now ct tid raw d))).
         shows_stored_row now (snd (put_task now ct tid raw d)) v)
   \<and> (\<forall>v \<in> set (returned_tasks (get_my_tasks now me d)). shows_stored_row now d v)
   \<and> snd (post_task now ct raw d) = snd (post_task now' ct raw d)
   \<and> snd (put_task now ct tid raw d) = snd (put_task now' ct tid raw d)
   \<and> (validate_query q \<longrightarrow>
        map task.truncate (returned_tasks (get_tasks now q d))
          = order_by_created_at_desc (filter (where_clause q) (tasks d)))
   \<and> (isIn statuses s \<longrightarrow>
        set (map task.truncate (returned_tasks
               (get_tasks now \<lparr>q_assignee = None, q_priority = None, q_status = Some s\<rparr> d)))
          = {t \<in> set (tasks d). status t = s})"
proof (intro conjI ballI impI)
  fix v assume "v \<in> set (returned_tasks (get_tasks now q d))"
  then show "shows_stored_row now d v" by (rule get_tasks_shows)
next
  fix v assume "v \<in> set (returned_tasks (get_task now tid d))"
  then show "shows_stored_row now d v" by (rule get_task_shows)
next
  fix v assume "v \<in> set (returned_tasks (fst (post_task now ct raw d)))"
  then show "shows_stored_row now (snd (post_task now ct raw d)) v" by (rule post_task_shows)
next
  fix v assume "v \<in> set (returned_tasks (fst (put_task now ct tid raw d)))"
  then show "shows_stored_row now (snd (put_task now ct tid raw d)) v"
    by (rule put_task_shows)
next
  fix v assume "v \<in> set (returned_tasks (get_my_tasks now me d))"
  then show "shows_stored_row now d v" by (rule get_my_tasks_shows)
next
  show "snd (post_task now ct raw d) = snd (post_task now' ct raw d)"
    by (rule post_task_store_clock)
next
  show "snd (put_task now ct tid raw d) = snd (put_task now' ct tid raw d)"
    by (rule put_task_store_clock)
next
  assume "validate_query q"
  then show "map task.truncate (returned_tasks (get_tasks now q d))
          = order_by_created_at_desc (filter (where_clause q) (tasks d))"
    by (rule get_tasks_rows)
next
  assume "isIn statuses s"
  then show "set (map task.truncate (returned_tasks
               (get_tasks now \<lparr>q_assignee = None, q_priority = None, q_status = Some s\<rparr> d)))
          = {t \<in> set (tasks d). status t = s}"
    by (rule get_tasks_status)
qed

theorem responses_carry_classifier_badge_witness:
  "validate_query \<lparr>q_assignee = None, q_priority = None, q_status = Some ''Review''\<rparr>
   \<and> isIn statuses ''Review''
   \<and> map badge (returned_tasks (get_tasks 5000
        \<lparr>q_assignee = None, q_priority = None, q_status = Some ''Review''\<rparr> sample_db))
      = [''Overdue'']
   \<and> shows_stored_row 5000 sample_db (hd (returned_tasks (get_tasks 5000
        \<lparr>q_assignee = None, q_priority = None, q_status = Some ''Review''\<rparr> sample_db)))
   \<and> map task.truncate (returned_tasks (get_tasks 5000
        \<lparr>q_assignee = None, q_priority = None, q_status = Some ''Review''\<rparr> sample_db))
      = [task1]
   \<and> map badge (returned_tasks (get_task 5000 1 sample_db)) = [''Overdue'']
   \<and> shows_stored_row 5000 sample_db (hd (returned_tasks (get_task 5000 1 sample_db)))
   \<and> map badge (returned_tasks (get_my_tasks 5000 ann sample_db)) = [''Overdue'']
   \<and> shows_stored_row 5000 sample_db (hd (returned_tasks (get_my_tasks 5000 ann sample_db)))
   \<and> map badge (returned_tasks (fst (post_task 5000 6000
        (empty_body\<lparr>b_title := Val (utf16 ''Plan''), b_priority := Val ''High''\<rparr>) sample_db)))
      = [''On Track'']
   \<and> shows_stored_row 5000
        (snd (post_task 5000 6000
           (empty_body\<lparr>b_title := Val (utf16 ''Plan''), b_priority := Val ''High''\<rparr>) sample_db))
        (hd (returned_tasks (fst (post_task 5000 6000
           (empty_body\<lparr>b_title := Val (utf16 ''Plan''), b_priority := Val ''High''\<rparr>) sample_db))))
   \<and> map badge (returned_tasks (fst (put_task 5000 6000 1
        (empty_body\<lparr>b_status := Val ''Done''\<rparr>) sample_db)))
      = [''On Track'']
   \<and> shows_stored_row 5000
        (snd (put_task 5000 6000 1 (empty_body\<lparr>b_status := Val ''Done''\<rparr>) sample_db))
        (hd (returned_tasks (fst (put_task 5000 6000 1
           (empty_body\<lparr>b_status := Val ''Done''\<rparr>) sample_db))))
   \<and> snd (put_task 5000 6000 1 (empty_body\<lparr>b_status := Val ''Done''\<rparr>) sample_db)
      = snd (put_task 0 6000 1 (empty_body\<lparr>b_status := Val ''Done''\<rparr>) sample_db)"
proof -
  let ?q = "\<lparr>q_assignee = None, q_priority = None, q_status = Some ''Review''\<rparr>"
  let ?new = "empty_body\<lparr>b_title := Val (utf16 ''Plan''), b_priority := Val ''High''\<rparr>"
  let ?done = "empty_body\<lparr>b_status := Val ''Done''\<rparr>"
  note on_put = responses_carry_classifier_badge
    [of 5000 ?q sample_db 1 6000 ?done ann 0 "''Review''"]
  note on_post = responses_carry_classifier_badge
    [of 5000 ?q sample_db 1 6000 ?new ann 0 "''Review''"]
  have q: "validate_query ?q" and s: "isIn statuses ''Review''"
    by (simp_all add: validate_query_def check_defs)
  have list: "map badge (returned_tasks (get_tasks 5000 ?q sample_db)) = [''Overdue'']"
    by (simp add: get_tasks_def validate_query_def where_clause_def sample_defs check_defs
        view_defs getTaskBadge_def hoursDiff_def)
  have detail: "map badge (returned_tasks (get_task 5000 1 sample_db)) = [''Overdue'']"
    by (simp add: get_task_def sample_defs view_defs getTaskBadge_def hoursDiff_def)
  have mine: "map badge (returned_tasks (get_my_tasks 5000 ann sample_db)) = [''Overdue'']"
    by (simp add: get_my_tasks_def sample_defs view_defs getTaskBadge_users_def)
  have post: "map badge (returned_tasks (fst (post_task 5000 6000 ?new sample_db)))
      = [''On Track'']"
    by (simp add: post_task_def validate_post_def user_missing_def insert_task_def Let_def
        sample_defs check_defs view_defs getTaskBadge_def)
  have put: "map badge (returned_tasks (fst (put_task 5000 6000 1 ?done sample_db)))
      = [''On Track'']"
    by (simp add: put_task_def validate_put_def user_missing_def updateFields_def
        update_task_def Let_def sample_defs check_defs view_defs getTaskBadge_def)
  have first: "hd vs \<in> set vs" if "map badge vs = [b]" for vs :: "task_view list" and b
    using that by (intro hd_in_set) auto
  note shown = first [OF list] first [OF detail] first [OF mine] first [OF post] first [OF put]
  have rows: "map task.truncate (returned_tasks (get_tasks 5000 ?q sample_db)) = [task1]"
    using on_put q by (simp add: sample_defs where_clause_def order_by_created_at_desc_def)
  from on_put on_post q s list detail mine post put shown rows show ?thesis by blast
qed

section \<open>Creation status and status transitions\<close>

text \<open>
  C4, as stated, fails on \<^verbatim>\<open>POST /tasks\<close>: a request that passes validation and
  specifies the status \<open>Done\<close> is answered with 201 and creates a task whose stored
  status is \<open>Backlog\<close>. The handler takes \<^verbatim>\<open>title\<close>, \<^verbatim>\<open>description\<close>, \<^verbatim>\<open>priority\<close>,
  \<^verbatim>\<open>assignee_id\<close> and \<^verbatim>\<open>due_date\<close> from the body and no status.
\<close>

theorem post_task_status_specified_counterexample:
  "b_status (empty_body\<lparr>b_title := Val (utf16 ''Plan''), b_priority := Val ''High'',
                        b_status := Val ''Done''\<rparr>) = Val ''Done''
   \<and> status_code (fst (post_task 5000 6000
        (empty_body\<lparr>b_title := Val (utf16 ''Plan''), b_priority := Val ''High'',
                    b_status := Val ''Done''\<rparr>) sample_db)) = 201
   \<and> map status (tasks (snd (post_task 5000 6000
        (empty_body\<lparr>b_title := Val (utf16 ''Plan''), b_priority := Val ''High'',
                    b_status := Val ''Done''\<rparr>) sample_db)))
      = [''Review'', ''Backlog'']
   \<and> map status (returned_tasks (fst (post_task 5000 6000
        (empty_body\<lparr>b_title := Val (utf16 ''Plan''), b_priority := Val ''High'',
                    b_status := Val ''Done''\<rparr>) sample_db)))
      = [''Backlog'']"
  by (simp add: post_task_def validate_post_def user_missing_def insert_task_def Let_def
      sample_defs check_defs view_defs)

text \<open>
  C4, amended. A task is always created with status \<open>Backlog\<close>, whether or not the
  \<^verbatim>\<open>POST /tasks\<close> request specifies a status: a request answered with 201 appends one
  row, with the next identifier and status \<open>Backlog\<close>, any other answer leaves the store
  as it was, and the task returned shows \<open>Backlog\<close>. Status transitions through
  \<^verbatim>\<open>PUT /tasks/:id\<close> are unconstrained: on an existing task, whatever its current
  status, a body \<^verbatim>\<open>{status: s}\<close> with \<open>s\<close> one of the four statuses is answered with 200,
  and the stored and the returned status are \<open>s\<close>.
\<close>

theorem created_backlog_and_free_transitions:
  "(status_code (fst (post_task now ct raw d)) = 201 \<longrightarrow>
      (\<exists>t. tasks (snd (post_task now ct raw d)) = tasks d @ [t]
            \<and> t_id t = tasks_auto_increment d \<and> status t = ''Backlog''))
   \<and> (status_code (fst (post_task now ct raw d)) \<noteq> 201 \<longrightarrow> snd (post_task now ct raw d) = d)
   \<and> (tasks_keyed d \<longrightarrow>
        (\<forall>v \<in> set (returned_tasks (fst (post_task now ct raw d))). status v = ''Backlog''))
   \<and> (tasks_keyed d \<and> t \<in> set (tasks d) \<and> s \<in> set statuses \<longrightarrow>
        status_code (fst (put_task now ct (t_id t) (empty_body\<lparr>b_status := Val s\<rparr>) d)) = 200
        \<and> (\<forall>t' \<in> set (tasks (snd (put_task now ct (t_id t)
                                       (empty_body\<lparr>b_status := Val s\<rparr>) d))).
              t_id t' = t_id t \<longrightarrow> status t' = s)
        \<and> (\<forall>v \<in> set (returned_tasks
                        (fst (put_task now ct (t_id t) (empty_body\<lparr>b_status := Val s\<rparr>) d))).
              status v = s))"
proof -
  let ?p = "post_task now ct raw d"
  have post: "(status_code (fst ?p) = 201 \<longrightarrow>
      (\<exists>t. tasks (snd ?p) = tasks d @ [t]
            \<and> t_id t = tasks_auto_increment d \<and> status t = ''Backlog''))
   \<and> (status_code (fst ?p) \<noteq> 201 \<longrightarrow> snd ?p = d)"
    using post_task_decided [of raw now ct d] by (auto simp: insert_task_def)
  have view: "\<forall>v \<in> set (returned_tasks (fst ?p)). status v = ''Backlog''" if k: "tasks_keyed d"
    using post_task_decided [of raw now ct d]
    by (auto simp: returned_tasks_def select_inserted_keyed [OF k] status_decorate
        status_insert_task)
  have put: "status_code (fst (put_task now ct (t_id t) (empty_body\<lparr>b_status := Val s\<rparr>) d)) = 200
        \<and> (\<forall>t' \<in> set (tasks (snd (put_task now ct (t_id t)
                                       (empty_body\<lparr>b_status := Val s\<rparr>) d))).
              t_id t' = t_id t \<longrightarrow> status t' = s)
        \<and> (\<forall>v \<in> set (returned_tasks
                        (fst (put_task now ct (t_id t) (empty_body\<lparr>b_status := Val s\<rparr>) d))).
              status v = s)"
    if k: "tasks_keyed d" and t: "t \<in> set (tasks d)" and s: "s \<in> set statuses"
  proof -
    let ?b = "\<lparr>title' = None, description' = None, priority' = None, status' = Some s,
               assignee_id' = None, due_date' = None\<rparr>"
    let ?d' = "update_task ct (updateFields ?b) (t_id t) d"
    from k t have id: "1 \<le> t_id t" by (auto simp: tasks_keyed_def)
    note v = validate_put_status_only [OF id s]
    have w: "put_task now ct (t_id t) (empty_body\<lparr>b_status := Val s\<rparr>) d =
        (Response 200 (MessageTask ''Task updated successfully''
            (decorate (getTaskBadge now) (hd (select_task ?d' (t_id t))))), ?d')"
      by (rule put_task_written [OF v t refl])
        (simp_all add: user_missing_def updateFields_def empty_body_def)
    have rows: "status t' = s" if "t' \<in> set (tasks ?d')" "t_id t' = t_id t" for t'
      using that by (auto simp: update_task_def fold_updateFields split: if_splits)
    obtain r where r: "r \<in> set (tasks ?d')" "t_id r = t_id t"
      "hd (select_task ?d' (t_id t)) = left_join ?d' r"
      using hd_select_task [OF select_task_update_task [OF t refl, of ct ?b]] by blast
    show ?thesis
      unfolding w using rows r by (simp add: returned_tasks_def status_decorate)
  qed
  from post view put show ?thesis by blast
qed

theorem created_backlog_and_free_transitions_witness:
  "status_code (fst (post_task 5000 6000
        (empty_body\<lparr>b_title := Val (utf16 ''Plan''), b_priority := Val ''High'',
                    b_status := Val ''Done''\<rparr>) sample_db)) = 201
   \<and> tasks_keyed sample_db \<and> task1 \<in> set (tasks sample_db) \<and> ''Backlog'' \<in> set statuses
   \<and> status task1 = ''Review''
   \<and> returned_tasks (fst (post_task 5000 6000
        (empty_body\<lparr>b_title := Val (utf16 ''Plan''), b_priority := Val ''High'',
                    b_status := Val ''Done''\<rparr>) sample_db)) \<noteq> []
   \<and> status (hd (returned_tasks (fst (post_task 5000 6000
        (empty_body\<lparr>b_title := Val (utf16 ''Plan''), b_priority := Val ''High'',
                    b_status := Val ''Done''\<rparr>) sample_db)))) = ''Backlog''
   \<and> status_code (fst (put_task 5000 6000 (t_id task1)
        (empty_body\<lparr>b_status := Val ''Backlog''\<rparr>) sample_db)) = 200
   \<and> returned_tasks (fst (put_task 5000 6000 (t_id task1)
        (empty_body\<lparr>b_status := Val ''Backlog''\<rparr>) sample_db)) \<noteq> []
   \<and> status (hd (returned_tasks (fst (put_task 5000 6000 (t_id task1)
        (empty_body\<lparr>b_status := Val ''Backlog''\<rparr>) sample_db)))) = ''Backlog''"
proof -
  let ?new = "empty_body\<lparr>b_title := Val (utf16 ''Plan''), b_priority := Val ''High'',
                         b_status := Val ''Done''\<rparr>"
  let ?reopen = "empty_body\<lparr>b_status := Val ''Backlog''\<rparr>"
  note c4 = created_backlog_and_free_transitions
    [of 5000 6000 ?new sample_db task1 "''Backlog''"]
  have created: "status_code (fst (post_task 5000 6000 ?new sample_db)) = 201"
    and shown: "returned_tasks (fst (post_task 5000 6000 ?new sample_db)) \<noteq> []"
    by (simp_all add: post_task_def validate_post_def user_missing_def insert_task_def Let_def
        sample_defs check_defs view_defs)
  have keyed: "tasks_keyed sample_db" and mem: "task1 \<in> set (tasks sample_db)"
    and st: "''Backlog'' \<in> set statuses" and was: "status task1 = ''Review''"
    by (simp_all add: tasks_keyed_def sample_defs statuses_def)
  have moved: "returned_tasks (fst (put_task 5000 6000 (t_id task1) ?reopen sample_db)) \<noteq> []"
    by (simp add: put_task_def validate_put_def user_missing_def updateFields_def
        update_task_def Let_def sample_defs check_defs view_defs)
  from c4 created shown keyed mem st was moved show ?thesis
    by (simp add: hd_in_set del: One_nat_def)
qed


section \<open>Partial updates\<close>

text \<open>
  C5. \<^verbatim>\<open>PUT /tasks/:id\<close> on an existing task (the row at any position \<open>i\<close> of the table
  with the identifier of the request): whatever the body, the row keeps its identifier
  and creation time and the stored value of every one of the six fields that the body
  does not own. The handler runs its \<^verbatim>\<open>UPDATE\<close>, and answers 200, exactly when the
  request passes validation, its assignee (if any) exists, the body owns no property
  named \<^verbatim>\<open>hasOwnProperty\<close> and owns at least one of the six fields; that write sets \<^verbatim>\<open>updated_at\<close> to the current timestamp of the
  database. Any other answer leaves the store as it was.
\<close>

theorem put_task_frame:
  assumes "i < length (tasks d)" and "t_id (tasks d ! i) = tid"
  shows "length (tasks (snd (put_task now ct tid raw d))) = length (tasks d)
     \<and> t_id (tasks (snd (put_task now ct tid raw d)) ! i) = tid
     \<and> created_at (tasks (snd (put_task now ct tid raw d)) ! i) = created_at (tasks d ! i)
     \<and> (b_title raw = Absent \<longrightarrow>
          title (tasks (snd (put_task now ct tid raw d)) ! i) = title (tasks d ! i))
     \<and> (b_description raw = Absent \<longrightarrow>
          description (tasks (snd (put_task now ct tid raw d)) ! i)
            = description (tasks d ! i))
     \<and> (b_priority raw = Absent \<longrightarrow>
          priority (tasks (snd (put_task now ct tid raw d)) ! i) = priority (tasks d ! i))
     \<and> (b_status raw = Absent \<longrightarrow>
          status (tasks (snd (put_task now ct tid raw d)) ! i) = status (tasks d ! i))
     \<and> (b_assignee_id raw = Absent \<longrightarrow>
          assignee_id (tasks (snd (put_task now ct tid raw d)) ! i)
            = assignee_id (tasks d ! i))
     \<and> (b_due_date raw = Absent \<longrightarrow>
          due_date (tasks (snd (put_task now ct tid raw d)) ! i) = due_date (tasks d ! i))
     \<and> (status_code (fst (put_task now ct tid raw d)) = 200 \<longleftrightarrow>
          validate_put tid raw \<noteq> None
          \<and> (\<forall>a. b_assignee_id raw = Val a \<longrightarrow> a \<in> u_id ` set (users d))
          \<and> \<not> owns_hasOwnProperty raw
          \<and> \<not> names_no_field raw)
     \<and> (status_code (fst (put_task now ct tid raw d)) = 200 \<longrightarrow>
          updated_at (tasks (snd (put_task now ct tid raw d)) ! i) = ct)
     \<and> (status_code (fst (put_task now ct tid raw d)) \<noteq> 200 \<longrightarrow>
          snd (put_task now ct tid raw d) = d)"
proof -
  let ?r = "put_task now ct tid raw d"
  have mem: "tasks d ! i \<in> set (tasks d)" using assms(1) by simp
  from put_task_decided [OF mem assms(2), of raw now ct]
  consider (written) b where "validate_put tid raw = Some b" "\<not> user_missing d (assignee_id' b)"
      "updateFields b \<noteq> []" "status_code (fst ?r) = 200"
      "snd ?r = update_task ct (updateFields b) tid d" "\<not> owns_hasOwnProperty raw"
    | (refused) "status_code (fst ?r) \<noteq> 200" "snd ?r = d"
      "validate_put tid raw = None
       \<or> (\<exists>b. validate_put tid raw = Some b
             \<and> (user_missing d (assignee_id' b) \<or> owns_hasOwnProperty raw
                  \<or> updateFields b = []))"
    by blast
  then show ?thesis
  proof cases
    case written
    note v = validate_put_SomeD [OF written(1)]
    have row: "tasks (snd ?r) ! i
        = (fold (\<lambda>f r. f r) (updateFields b) (tasks d ! i))\<lparr>updated_at := ct\<rparr>"
      using assms by (simp add: written(5) nth_update_task)
    have ok: "validate_put tid raw \<noteq> None
          \<and> (\<forall>a. b_assignee_id raw = Val a \<longrightarrow> a \<in> u_id ` set (users d))
          \<and> \<not> owns_hasOwnProperty raw
          \<and> \<not> names_no_field raw"
      using written(1,2,3,6) validate_put_assignee [OF written(1), of d]
        updateFields_empty [OF written(1)] by auto
    have t: "b_title raw = Absent \<longrightarrow> title' b = None"
      using v(2) check_title_None [of "b_title raw"] by auto
    have de: "b_description raw = Absent \<longrightarrow> description' b = None"
      using v(3) check_description_None [of "b_description raw"] by auto
    have p: "b_priority raw = Absent \<longrightarrow> priority' b = None"
      using v(4) check_isIn_None [of priorities "b_priority raw"] by auto
    have s: "b_status raw = Absent \<longrightarrow> status' b = None"
      using v(5) check_isIn_None [of statuses "b_status raw"] by auto
    have a: "b_assignee_id raw = Absent \<longrightarrow> assignee_id' b = None"
      using v(6) check_isInt_None [of "b_assignee_id raw"] by auto
    have du: "b_due_date raw = Absent \<longrightarrow> due_date' b = None"
      using v(7) check_isISO8601_None [of "b_due_date raw"] by auto
    have len: "length (tasks (snd ?r)) = length (tasks d)"
      by (simp add: written(5) length_update_task)
    show ?thesis
      unfolding row fold_updateFields using ok t de p s a du len written(4) assms(2) by simp
  next
    case refused
    have "\<not> (validate_put tid raw \<noteq> None
          \<and> (\<forall>a. b_assignee_id raw = Val a \<longrightarrow> a \<in> u_id ` set (users d))
          \<and> \<not> owns_hasOwnProperty raw
          \<and> \<not> names_no_field raw)"
      using refused(3) validate_put_assignee [of tid raw _ d] updateFields_empty [of tid raw]
      by auto
    then show ?thesis using refused(1,2) assms(2) by simp
  qed
qed

theorem put_task_frame_witness:
  "(0::nat) < length (tasks sample_db) \<and> t_id (tasks sample_db ! 0) = 1
   \<and> b_title (empty_body\<lparr>b_status := Val ''Done'', b_due_date := Val (ISO8601 9000)\<rparr>) = Absent
   \<and> validate_put 1 (empty_body\<lparr>b_status := Val ''Done'', b_due_date := Val (ISO8601 9000)\<rparr>)
       \<noteq> None
   \<and> \<not> names_no_field (empty_body\<lparr>b_status := Val ''Done'', b_due_date := Val (ISO8601 9000)\<rparr>)
   \<and> status_code (fst (put_task 5000 6000 1
        (empty_body\<lparr>b_status := Val ''Done'', b_due_date := Val (ISO8601 9000)\<rparr>) sample_db))
      = 200
   \<and> title (tasks (snd (put_task 5000 6000 1
        (empty_body\<lparr>b_status := Val ''Done'', b_due_date := Val (ISO8601 9000)\<rparr>) sample_db)) ! 0)
      = title (tasks sample_db ! 0)
   \<and> assignee_id (tasks (snd (put_task 5000 6000 1
        (empty_body\<lparr>b_status := Val ''Done'', b_due_date := Val (ISO8601 9000)\<rparr>) sample_db)) ! 0)
      = assignee_id (tasks sample_db ! 0)
   \<and> updated_at (tasks sample_db ! 0) = 1000
   \<and> updated_at (tasks (snd (put_task 5000 6000 1
        (empty_body\<lparr>b_status := Val ''Done'', b_due_date := Val (ISO8601 9000)\<rparr>) sample_db)) ! 0)
      = 6000"
proof -
  let ?raw = "empty_body\<lparr>b_status := Val ''Done'', b_due_date := Val (ISO8601 9000)\<rparr>"
  have i: "(0::nat) < length (tasks sample_db)" and t: "t_id (tasks sample_db ! 0) = 1"
    and old: "updated_at (tasks sample_db ! 0) = 1000"
    by (simp_all add: sample_defs)
  have absent: "b_title ?raw = Absent" "b_assignee_id ?raw = Absent"
    and named: "\<not> names_no_field ?raw" and plain: "\<not> owns_hasOwnProperty ?raw"
    by (simp_all add: empty_body_def names_no_field_def)
  have valid: "validate_put 1 ?raw \<noteq> None"
    by (simp add: validate_put_def empty_body_def check_defs)
  have users: "\<forall>a. b_assignee_id ?raw = Val a \<longrightarrow> a \<in> u_id ` set (users sample_db)"
    by (simp add: empty_body_def)
  from put_task_frame [OF i t, of 5000 6000 ?raw] i t old absent named plain valid users
  show ?thesis by simp
qed

section \<open>An update that names no field\<close>

text \<open>
  On an existing task, a body that contains none of the six updatable fields and does
  not own a property named \<^verbatim>\<open>hasOwnProperty\<close> is answered with 400 and the message
  \<open>No fields to update\<close>, and the store, hence the task and its \<^verbatim>\<open>updated_at\<close>, is as
  it was.
\<close>

lemma put_task_no_field:
  assumes "tasks_keyed d" and "t \<in> set (tasks d)" and "names_no_field raw"
    and "\<not> owns_hasOwnProperty raw"
  shows "put_task now ct (t_id t) raw d = (Response 400 (Message ''No fields to update''), d)"
proof -
  from assms(1,2) have id: "1 \<le> t_id t" by (auto simp: tasks_keyed_def)
  from assms(2) have ex: "filter (\<lambda>r. t_id r = t_id t) (tasks d) \<noteq> []"
    by (auto simp: filter_empty_conv)
  from assms(3) id have v: "validate_put (t_id t) raw =
      Some \<lparr>title' = None, description' = None, priority' = None, status' = None,
            assignee_id' = None, due_date' = None\<rparr>"
    by (simp add: names_no_field_def validate_put_def check_title_def check_description_def
        check_isIn_def check_isInt_min1_def check_isISO8601_def)
  show ?thesis
    using ex assms(4) by (simp add: put_task_def v user_missing_def updateFields_def)
qed

text \<open>
  C9. \<^verbatim>\<open>PUT /tasks/:id\<close> on an existing task with a body that contains none of the six
  updatable fields is to be answered with 400 and \<open>No fields to update\<close>, the store
  unchanged. The handler misses this for a body that owns a property named
  \<^verbatim>\<open>hasOwnProperty\<close>, such as \<^verbatim>\<open>{"hasOwnProperty": 1}\<close>: it contains none of the six
  fields and passes validation, the task exists, and the call
  \<^verbatim>\<open>req.body.hasOwnProperty('title')\<close> throws, so the answer is 500 and
  \<open>Error updating task\<close>. The store is unchanged there as well.
\<close>

theorem put_task_shadowed_method:
  assumes "tasks_keyed d" and "t \<in> set (tasks d)" and "names_no_field raw"
    and "owns_hasOwnProperty raw"
  shows "put_task now ct (t_id t) raw d = (Response 500 (Message ''Error updating task''), d)"
proof -
  from assms(1,2) have id: "1 \<le> t_id t" by (auto simp: tasks_keyed_def)
  from assms(2) have ex: "filter (\<lambda>r. t_id r = t_id t) (tasks d) \<noteq> []"
    by (auto simp: filter_empty_conv)
  from assms(3) id have v: "validate_put (t_id t) raw =
      Some \<lparr>title' = None, description' = None, priority' = None, status' = None,
            assignee_id' = None, due_date' = None\<rparr>"
    by (simp add: names_no_field_def validate_put_def check_title_def check_description_def
        check_isIn_def check_isInt_min1_def check_isISO8601_def)
  show ?thesis
    using ex assms(4) by (simp add: put_task_def v user_missing_def)
qed

theorem put_task_shadowed_method_witness:
  "tasks_keyed sample_db \<and> task1 \<in> set (tasks sample_db)
   \<and> names_no_field (empty_body\<lparr>owns_hasOwnProperty := True\<rparr>)
   \<and> owns_hasOwnProperty (empty_body\<lparr>owns_hasOwnProperty := True\<rparr>)
   \<and> put_task 5000 6000 (t_id task1) (empty_body\<lparr>owns_hasOwnProperty := True\<rparr>) sample_db
       = (Response 500 (Message ''Error updating task''), sample_db)"
proof -
  have keyed: "tasks_keyed sample_db" and mem: "task1 \<in> set (tasks sample_db)"
    by (simp_all add: tasks_keyed_def sample_defs)
  have none: "names_no_field (empty_body\<lparr>owns_hasOwnProperty := True\<rparr>)"
    and owned: "owns_hasOwnProperty (empty_body\<lparr>owns_hasOwnProperty := True\<rparr>)"
    by (simp_all add: names_no_field_def empty_body_def)
  from put_task_shadowed_method [OF keyed mem none owned, of 5000 6000] keyed mem none owned
  show ?thesis by simp
qed

section \<open>Referential integrity of the assignee\<close>

text \<open>
  C6, as stated, fails on \<^verbatim>\<open>PUT /tasks/:id\<close>: the handler looks the task up before the
  assignee, so a request for a task that does not exist, carrying an \<^verbatim>\<open>assignee_id\<close>
  that references no user, is answered with 404 and \<open>Task not found\<close>.
\<close>

theorem put_task_dangling_assignee_counterexample:
  "b_assignee_id (empty_body\<lparr>b_assignee_id := Val 42\<rparr>) = Val 42
   \<and> 42 \<notin> u_id ` set (users sample_db)
   \<and> put_task 5000 6000 9 (empty_body\<lparr>b_assignee_id := Val 42\<rparr>) sample_db
       = (Response 404 (Message ''Task not found''), sample_db)"
  by (simp add: put_task_def validate_put_def sample_defs check_defs)

text \<open>
  C6, amended. A \<^verbatim>\<open>POST /tasks\<close> or \<^verbatim>\<open>PUT /tasks/:id\<close> request carrying an
  \<^verbatim>\<open>assignee_id\<close> that references no existing user writes nothing to the store. It is
  answered with 400 and \<open>Assignee not found\<close> when it passes validation and, for
  \<^verbatim>\<open>PUT\<close>, the task exists; a request that fails validation is answered with 400 and
  \<open>Validation failed\<close>, and a valid \<^verbatim>\<open>PUT\<close> on a task that does not exist with 404.
  So \<^verbatim>\<open>POST\<close>, \<^verbatim>\<open>PUT\<close> and \<^verbatim>\<open>DELETE\<close> on tasks, the three handlers that write the
  table, keep the invariant that every stored task's assignee is null or references an
  existing user (no route deletes a user).
\<close>

theorem dangling_assignee_rejected:
  "(b_assignee_id raw = Val a \<and> a \<notin> u_id ` set (users d) \<longrightarrow>
      snd (post_task now ct raw d) = d
      \<and> snd (put_task now ct tid raw d) = d
      \<and> (validate_post raw \<noteq> None \<longrightarrow>
           fst (post_task now ct raw d) = Response 400 (Message ''Assignee not found''))
      \<and> (validate_post raw = None \<longrightarrow>
           fst (post_task now ct raw d) = Response 400 (Errors ''Validation failed''))
      \<and> (validate_put tid raw \<noteq> None \<and> tid \<in> t_id ` set (tasks d) \<longrightarrow>
           fst (put_task now ct tid raw d) = Response 400 (Message ''Assignee not found''))
      \<and> (validate_put tid raw = None \<longrightarrow>
           fst (put_task now ct tid raw d) = Response 400 (Errors ''Validation failed''))
      \<and> (validate_put tid raw \<noteq> None \<and> tid \<notin> t_id ` set (tasks d) \<longrightarrow>
           fst (put_task now ct tid raw d) = Response 404 (Message ''Task not found'')))
   \<and> (assignees_exist d \<longrightarrow>
        assignees_exist (snd (post_task now ct raw d))
        \<and> assignees_exist (snd (put_task now ct tid raw d))
        \<and> assignees_exist (snd (delete_task tid d)))"
proof -
  have dangling: "snd (post_task now ct raw d) = d
      \<and> snd (put_task now ct tid raw d) = d
      \<and> (validate_post raw \<noteq> None \<longrightarrow>
           fst (post_task now ct raw d) = Response 400 (Message ''Assignee not found''))
      \<and> (validate_post raw = None \<longrightarrow>
           fst (post_task now ct raw d) = Response 400 (Errors ''Validation failed''))
      \<and> (validate_put tid raw \<noteq> None \<and> tid \<in> t_id ` set (tasks d) \<longrightarrow>
           fst (put_task now ct tid raw d) = Response 400 (Message ''Assignee not found''))
      \<and> (validate_put tid raw = None \<longrightarrow>
           fst (put_task now ct tid raw d) = Response 400 (Errors ''Validation failed''))
      \<and> (validate_put tid raw \<noteq> None \<and> tid \<notin> t_id ` set (tasks d) \<longrightarrow>
           fst (put_task now ct tid raw d) = Response 404 (Message ''Task not found''))"
    if a: "b_assignee_id raw = Val a" "a \<notin> u_id ` set (users d)"
  proof -
    have post: "post_task now ct raw d =
        (if validate_post raw = None then (Response 400 (Errors ''Validation failed''), d)
         else (Response 400 (Message ''Assignee not found''), d))"
      using post_task_decided [of raw now ct d] validate_post_assignee [of raw _ d] a
      by auto
    have ex: "filter (\<lambda>t. t_id t = tid) (tasks d) = [] \<longleftrightarrow> tid \<notin> t_id ` set (tasks d)"
      by (auto simp: filter_empty_conv)
    have put: "put_task now ct tid raw d =
        (if validate_put tid raw = None then (Response 400 (Errors ''Validation failed''), d)
         else if tid \<notin> t_id ` set (tasks d) then (Response 404 (Message ''Task not found''), d)
         else (Response 400 (Message ''Assignee not found''), d))"
    proof (cases "validate_put tid raw")
      case None
      then show ?thesis by (simp add: put_task_def)
    next
      case (Some b)
      then have "user_missing d (assignee_id' b)"
        using validate_put_assignee [OF Some, of d] a by auto
      then show ?thesis using Some ex by (simp add: put_task_def)
    qed
    show ?thesis unfolding post put by simp
  qed
  show ?thesis
    using dangling assignees_exist_post assignees_exist_put assignees_exist_delete by blast
qed

theorem dangling_assignee_rejected_witness:
  "b_assignee_id (empty_body\<lparr>b_title := Val (utf16 ''Plan''), b_priority := Val ''High'',
                             b_assignee_id := Val 42\<rparr>) = Val 42
   \<and> 42 \<notin> u_id ` set (users sample_db)
   \<and> validate_post (empty_body\<lparr>b_title := Val (utf16 ''Plan''), b_priority := Val ''High'',
                                b_assignee_id := Val 42\<rparr>) \<noteq> None
   \<and> validate_put 1 (empty_body\<lparr>b_title := Val (utf16 ''Plan''), b_priority := Val ''High'',
                                 b_assignee_id := Val 42\<rparr>) \<noteq> None
   \<and> 1 \<in> t_id ` set (tasks sample_db)
   \<and> assignees_exist sample_db
   \<and> post_task 5000 6000 (empty_body\<lparr>b_title := Val (utf16 ''Plan''), b_priority := Val ''High'',
                                       b_assignee_id := Val 42\<rparr>) sample_db
       = (Response 400 (Message ''Assignee not found''), sample_db)
   \<and> put_task 5000 6000 1 (empty_body\<lparr>b_title := Val (utf16 ''Plan''), b_priority := Val ''High'',
                                        b_assignee_id := Val 42\<rparr>) sample_db
       = (Response 400 (Message ''Assignee not found''), sample_db)
   \<and> assignees_exist (snd (delete_task 1 sample_db))"
proof -
  let ?raw = "empty_body\<lparr>b_title := Val (utf16 ''Plan''), b_priority := Val ''High'',
                         b_assignee_id := Val 42\<rparr>"
  have carried: "b_assignee_id ?raw = Val 42" and nobody: "42 \<notin> u_id ` set (users sample_db)"
    and there: "1 \<in> t_id ` set (tasks sample_db)"
    by (simp_all add: sample_defs)
  have post_ok: "validate_post ?raw \<noteq> None" and put_ok: "validate_put 1 ?raw \<noteq> None"
    by (simp_all add: validate_post_def validate_put_def empty_body_def check_defs)
  have inv: "assignees_exist sample_db"
    by (simp add: assignees_exist_def sample_defs)
  from dangling_assignee_rejected [of ?raw 42 sample_db 5000 6000 1]
    carried nobody there post_ok put_ok inv
  show ?thesis by (simp add: prod_eq_iff)
qed

section \<open>Comments belong to their author\<close>

text \<open>
  C7, as stated, fails on \<^verbatim>\<open>PUT /comments/:id\<close>: validation comes before the check of
  the author, so a request by a user who is not the author, with an empty body text, is
  answered with 400, not 403.
\<close>

theorem put_comment_non_author_counterexample:
  "comment1 \<in> set (comments sample_db) \<and> author_id comment1 \<noteq> u_id bob
   \<and> put_comment bob (c_id comment1) (Val []) sample_db
       = (Response 400 (Errors ''Validation failed''), sample_db)"
  by (simp add: put_comment_def sample_defs check_defs)

text \<open>
  C7, amended. For every existing comment and every authenticated user who is not its
  author: \<^verbatim>\<open>DELETE /comments/:id\<close> is answered with 403, \<^verbatim>\<open>PUT /comments/:id\<close> with
  403 when the body text has 1 to 1000 characters after trimming and with 400
  otherwise, and in each case the store is left as it was. Hence a \<^verbatim>\<open>PUT\<close> or
  \<^verbatim>\<open>DELETE\<close> that changes the store comes from the author.
\<close>

theorem comment_author_only:
  assumes "comments_keyed d" and "c \<in> set (comments d)"
  shows "(author_id c \<noteq> u_id me \<longrightarrow>
            delete_comment me (c_id c) d =
              (Response 403
                 (Message ''Access denied: You can only delete your own comments''), d)
            \<and> (isLength 1 1000 (trim (toString raw)) \<longrightarrow>
                 put_comment me (c_id c) raw d =
                   (Response 403
                      (Message ''Access denied: You can only edit your own comments''), d))
            \<and> (\<not> isLength 1 1000 (trim (toString raw)) \<longrightarrow>
                 put_comment me (c_id c) raw d
                   = (Response 400 (Errors ''Validation failed''), d)))
       \<and> (snd (put_comment me (c_id c) raw d) \<noteq> d \<or> snd (delete_comment me (c_id c) d) \<noteq> d
            \<longrightarrow> author_id c = u_id me)"
proof (cases "author_id c = u_id me")
  case True
  then show ?thesis by simp
next
  case False
  from delete_comment_denied [OF assms False] put_comment_denied [OF assms False, of raw] False
  show ?thesis by simp
qed

theorem comment_author_only_witness:
  "comments_keyed sample_db \<and> comment1 \<in> set (comments sample_db)
   \<and> author_id comment1 \<noteq> u_id bob
   \<and> isLength 1 1000 (trim (toString (Val (utf16 '' Looks good ''))))
   \<and> delete_comment bob (c_id comment1) sample_db =
        (Response 403 (Message ''Access denied: You can only delete your own comments''),
         sample_db)
   \<and> put_comment bob (c_id comment1) (Val (utf16 '' Looks good '')) sample_db =
        (Response 403 (Message ''Access denied: You can only edit your own comments''),
         sample_db)
   \<and> snd (put_comment ann (c_id comment1) (Val (utf16 '' Looks good '')) sample_db) \<noteq> sample_db
   \<and> author_id comment1 = u_id ann"
proof -
  have keyed: "comments_keyed sample_db" and mem: "comment1 \<in> set (comments sample_db)"
    and other: "author_id comment1 \<noteq> u_id bob"
    by (simp_all add: comments_keyed_def sample_defs)
  have valid: "isLength 1 1000 (trim (toString (Val (utf16 '' Looks good ''))))"
    by (simp add: check_defs)
  have edited: "snd (put_comment ann (c_id comment1) (Val (utf16 '' Looks good '')) sample_db)
                \<noteq> sample_db"
    by (simp add: put_comment_def select_comment_def Let_def sample_defs check_defs)
  from comment_author_only [OF keyed mem, of bob "Val (utf16 '' Looks good '')"] other valid
  have denied:
    "delete_comment bob (c_id comment1) sample_db =
        (Response 403 (Message ''Access denied: You can only delete your own comments''),
         sample_db)"
    "put_comment bob (c_id comment1) (Val (utf16 '' Looks good '')) sample_db =
        (Response 403 (Message ''Access denied: You can only edit your own comments''),
         sample_db)"
    by blast+
  from comment_author_only [OF keyed mem, of ann "Val (utf16 '' Looks good '')"] edited
  have author: "author_id comment1 = u_id ann"
    by blast
  from keyed mem other valid denied edited author show ?thesis
    by (intro conjI)
qed

section \<open>Protected routes\<close>




end
